theory Spec2Isabelle
  imports
    Main
    "HOL-Library.AList"
    "HOL-Library.Char_ord"
    "HOL-Library.List_Lexorder"
    "HOL-Library.Option_ord"
    "HOL-Library.Product_Lexorder"
begin

section \<open>JSON values and documents\<close>

text \<open>
  Request bodies, stored documents and response bodies are JSON objects. An object is an
  association list from property names to values, in insertion order; \<open>map_of\<close> reads a
  property and \<open>None\<close> stands for JavaScript's \<open>undefined\<close>. A string is the list of the
  bytes of its UTF-8 encoding. Numbers are integers: dates are carried as epoch
  milliseconds. ObjectIds are carried as their hexadecimal strings.
\<close>

datatype val =
    VNull
  | VBool bool
  | VNum int
  | VStr string
  | VArr "val list"
  | VObj "(string \<times> val) list"

type_synonym doc = "(string \<times> val) list"

text \<open>What \<open>if (v)\<close> takes for true.\<close>

definition truthy :: "val \<Rightarrow> bool" where
  "truthy v = (case v of VNull \<Rightarrow> False | VBool b \<Rightarrow> b | VNum n \<Rightarrow> n \<noteq> 0 | VStr s \<Rightarrow> s \<noteq> [] | _ \<Rightarrow> True)"

section \<open>JavaScript numbers and strings\<close>

text \<open>
  The numbers the handlers compute with are doubles that hold integers: \<open>NaN\<close>, the two
  infinities, or an integer that a double represents. \<open>to_double\<close> rounds an integer to
  the nearest double, ties to the even mantissa of 53 bits, as every arithmetic
  operation of JavaScript does with its exact result.
\<close>

datatype number = NaN | Num int | PosInf | NegInf

function bit_length :: "int \<Rightarrow> nat" where
  "bit_length n = (if n \<le> 0 then 0 else Suc (bit_length (n div 2)))"
  by pat_completeness auto
termination
  by (relation "measure nat") auto

declare bit_length.simps [simp del]

definition round_53 :: "int \<Rightarrow> int" where
  "round_53 m =
     (let e = bit_length m - 53;
          q = m div 2 ^ e;
          r = m mod 2 ^ e
      in (if 2 ^ (e - 1) < r \<or> (r = 2 ^ (e - 1) \<and> odd q) then q + 1 else q) * 2 ^ e)"

definition to_double :: "int \<Rightarrow> number" where
  "to_double i =
     (if \<bar>i\<bar> < 2 ^ 53 then Num i
      else let m = round_53 \<bar>i\<bar>
           in if 2 ^ 1024 \<le> m then (if i < 0 then NegInf else PosInf)
              else Num (if i < 0 then - m else m))"

text \<open>\<open>x - 1\<close> and \<open>x * y\<close>.\<close>

definition minus_one :: "number \<Rightarrow> number" where
  "minus_one x = (case x of Num n \<Rightarrow> to_double (n - 1) | _ \<Rightarrow> x)"

definition negative :: "number \<Rightarrow> bool" where
  "negative x = (case x of Num n \<Rightarrow> n < 0 | NegInf \<Rightarrow> True | _ \<Rightarrow> False)"

definition times :: "number \<Rightarrow> number \<Rightarrow> number" where
  "times x y =
     (case (x, y) of
        (Num a, Num b) \<Rightarrow> to_double (a * b)
      | (NaN, _) \<Rightarrow> NaN
      | (_, NaN) \<Rightarrow> NaN
      | _ \<Rightarrow> (if x = Num 0 \<or> y = Num 0 then NaN
              else if negative x = negative y then PosInf else NegInf))"

text \<open>\<open>JSON.stringify\<close> of a number: \<open>NaN\<close> and the infinities are written \<open>null\<close>.\<close>

definition json_number :: "number \<Rightarrow> val" where
  "json_number x = (case x of Num n \<Rightarrow> VNum n | _ \<Rightarrow> VNull)"

text \<open>
  White space and line terminators, as \<open>parseInt\<close>, \<open>String.prototype.trim\<close> and the
  class \<open>\s\<close> of regular expressions take them: TAB, LF, VT, FF, CR, SP, U+00A0, U+1680,
  U+2000 to U+200A, U+2028, U+2029, U+202F, U+205F, U+3000 and U+FEFF, in UTF-8.
\<close>

definition white_space :: "string list" where
  "white_space =
     [CHR 0x09] # [CHR 0x0A] # [CHR 0x0B] # [CHR 0x0C] # [CHR 0x0D] # [CHR 0x20] #
     [CHR 0xC2, CHR 0xA0] #
     [CHR 0xE1, CHR 0x9A, CHR 0x80] #
     [CHR 0xE2, CHR 0x80, CHR 0x80] # [CHR 0xE2, CHR 0x80, CHR 0x81] # [CHR 0xE2, CHR 0x80, CHR 0x82] #
     [CHR 0xE2, CHR 0x80, CHR 0x83] # [CHR 0xE2, CHR 0x80, CHR 0x84] # [CHR 0xE2, CHR 0x80, CHR 0x85] #
     [CHR 0xE2, CHR 0x80, CHR 0x86] # [CHR 0xE2, CHR 0x80, CHR 0x87] # [CHR 0xE2, CHR 0x80, CHR 0x88] #
     [CHR 0xE2, CHR 0x80, CHR 0x89] # [CHR 0xE2, CHR 0x80, CHR 0x8A] #
     [CHR 0xE2, CHR 0x80, CHR 0xA8] # [CHR 0xE2, CHR 0x80, CHR 0xA9] # [CHR 0xE2, CHR 0x80, CHR 0xAF] #
     [CHR 0xE2, CHR 0x81, CHR 0x9F] #
     [CHR 0xE3, CHR 0x80, CHR 0x80] #
     [CHR 0xEF, CHR 0xBB, CHR 0xBF] # []"

text \<open>
  The number of bytes of the white-space character a string begins with (ends with),
  \<open>0\<close> when there is none. A byte \<open>A0\<close> that belongs to no UTF-8 sequence, at the head of
  the string or after an ASCII byte, is taken as U+00A0 too.
\<close>

definition ws_head :: "string \<Rightarrow> nat" where
  "ws_head s =
     (case List.find (\<lambda>w. take (length w) s = w) ([CHR 0xA0] # white_space) of
        None \<Rightarrow> 0
      | Some w \<Rightarrow> length w)"

definition ws_tail :: "string \<Rightarrow> nat" where
  "ws_tail s =
     (case List.find (\<lambda>w. length w \<le> length s \<and> drop (length s - length w) s = w) white_space of
        Some w \<Rightarrow> length w
      | None \<Rightarrow>
          (case rev s of
             [] \<Rightarrow> 0
           | [a] \<Rightarrow> (if a = CHR 0xA0 then 1 else 0)
           | a # b # _ \<Rightarrow> (if a = CHR 0xA0 \<and> (of_char b :: nat) < 128 then 1 else 0)))"

function trim_start :: "string \<Rightarrow> string" where
  "trim_start s = (if ws_head s = 0 \<or> s = [] then s else trim_start (drop (ws_head s) s))"
  by pat_completeness auto
termination
  by (relation "measure length") auto

declare trim_start.simps [simp del]

function trim_end :: "string \<Rightarrow> string" where
  "trim_end s = (if ws_tail s = 0 \<or> s = [] then s else trim_end (take (length s - ws_tail s) s))"
  by pat_completeness auto
termination
  by (relation "measure length") auto

declare trim_end.simps [simp del]

definition trim :: "string \<Rightarrow> string" where
  "trim s = trim_end (trim_start s)"

text \<open>
  \<open>parseInt(string)\<close> without a radix: leading white space, a sign, \<open>0x\<close> for radix 16,
  the longest run of digits, and the double nearest to the integer they denote.
\<close>

definition digit_val :: "char \<Rightarrow> int option" where
  "digit_val c =
     (let n = (of_char c :: int)
      in if 48 \<le> n \<and> n \<le> 57 then Some (n - 48)
         else if 97 \<le> n \<and> n \<le> 122 then Some (n - 87)
         else if 65 \<le> n \<and> n \<le> 90 then Some (n - 55)
         else None)"

fun parse_digits :: "int \<Rightarrow> string \<Rightarrow> int list" where
  "parse_digits r [] = []"
| "parse_digits r (c # cs) =
     (case digit_val c of
        None \<Rightarrow> []
      | Some v \<Rightarrow> (if v < r then v # parse_digits r cs else []))"

definition parseInt :: "string \<Rightarrow> number" where
  "parseInt s =
     (let s1 = trim_start s;
          neg = (case s1 of [] \<Rightarrow> False | c # _ \<Rightarrow> c = CHR ''-'');
          s2 = (case s1 of [] \<Rightarrow> [] | c # r \<Rightarrow> (if c = CHR ''-'' \<or> c = CHR ''+'' then r else s1));
          hex = (case s2 of a # b # _ \<Rightarrow> a = CHR ''0'' \<and> (b = CHR ''x'' \<or> b = CHR ''X'') | _ \<Rightarrow> False);
          r = (if hex then 16 else 10);
          ds = parse_digits r (if hex then drop 2 s2 else s2);
          n = foldl (\<lambda>a v. a * r + v) 0 ds
      in if ds = [] then NaN else to_double (if neg then - n else n))"

text \<open>\<open>String(n)\<close> of an integer.\<close>

function show_nat :: "nat \<Rightarrow> string" where
  "show_nat n = (if n < 10 then [char_of (48 + n)] else show_nat (n div 10) @ [char_of (48 + n mod 10)])"
  by pat_completeness auto
termination
  by (relation "measure id") auto

declare show_nat.simps [simp del]

definition show_int :: "int \<Rightarrow> string" where
  "show_int i = (if i < 0 then CHR ''-'' # show_nat (nat (- i)) else show_nat (nat i))"

text \<open>The lower-case form of an ASCII letter; every other byte stays.\<close>

definition lower :: "char \<Rightarrow> char" where
  "lower ch = (let n = (of_char ch :: nat) in if 65 \<le> n \<and> n \<le> 90 then char_of (n + 32) else ch)"

section \<open>Mongoose schemas\<close>

text \<open>
  A schema path as the model files declare it: its name, its type and its options. A
  nested object is a path whose type lists the paths inside it. The schema option
  \<open>timestamps: true\<close> adds the paths \<open>createdAt\<close> and \<open>updatedAt\<close>, which Mongoose
  maintains itself.
\<close>

datatype dflt = Const val | DateNow

datatype opt =
    Required
  | Enum "string list"
  | Default dflt
  | Unique
  | Min int
  | Max int
  | Trim
  | Lowercase

datatype ptype = TString | TNumber | TDate | TObjectId | TArray ptype | TNested "field_spec list"
  and field_spec = Field (fname: string) (ftype: ptype) (fopts: "opt list")

record schema =
  paths :: "field_spec list"
  timestamps :: bool

text \<open>\<open>src/models/Appointment.js\<close>\<close>

definition appointmentSchema :: schema where
  "appointmentSchema = \<lparr>paths =
     [Field ''hospitalId'' TString [Required],
      Field ''patientId'' TObjectId [Required],
      Field ''doctorId'' TObjectId [Required],
      Field ''appointmentDate'' TDate [Required],
      Field ''appointmentTime'' TString [Required],
      Field ''duration'' TNumber [Default (Const (VNum 30))],
      Field ''department'' TString [],
      Field ''reason'' TString [Required],
      Field ''type'' TString [Enum [''In-Person'', ''Virtual''], Default (Const (VStr ''In-Person''))],
      Field ''status'' TString
        [Enum [''Scheduled'', ''Confirmed'', ''Completed'', ''Cancelled'', ''No-Show''],
         Default (Const (VStr ''Scheduled''))],
      Field ''location'' TString [],
      Field ''notes'' TString [],
      Field ''createdBy'' TObjectId [Required]],
    timestamps = True\<rparr>"

text \<open>\<open>src/models/Staff.js\<close>\<close>

definition staffSchema :: schema where
  "staffSchema = \<lparr>paths =
     [Field ''userId'' TObjectId [Required],
      Field ''employeeId'' TString [Required, Unique],
      Field ''firstName'' TString [Required, Trim],
      Field ''lastName'' TString [Required, Trim],
      Field ''department'' TString
        [Required,
         Enum [''Administration'', ''Nursing'', ''Laboratory'', ''Pharmacy'', ''Radiology'', ''Reception'',
               ''Billing'', ''IT Support'', ''Maintenance'', ''Security'', ''Human Resources'', ''Other'']],
      Field ''role'' TString [Required],
      Field ''phone'' TString [Required],
      Field ''email'' TString [Required, Lowercase],
      Field ''address'' (TNested
        [Field ''street'' TString [], Field ''city'' TString [], Field ''state'' TString [],
         Field ''zipCode'' TString [], Field ''country'' TString []]) [],
      Field ''dateOfBirth'' TDate [],
      Field ''gender'' TString [Enum [''Male'', ''Female'', ''Other''], Required],
      Field ''emergencyContact'' (TNested
        [Field ''name'' TString [], Field ''relationship'' TString [], Field ''phone'' TString []]) [],
      Field ''joiningDate'' TDate [Required, Default DateNow],
      Field ''salary'' TNumber [Required],
      Field ''workSchedule'' (TNested
        [Field ''shift'' TString [Enum [''Day'', ''Night'', ''Rotating''], Default (Const (VStr ''Day''))],
         Field ''workingDays'' (TArray TString) [],
         Field ''workingHours'' (TNested [Field ''start'' TString [], Field ''end'' TString []]) []]) [],
      Field ''qualifications'' (TArray TString) [],
      Field ''certifications'' (TArray TString) [],
      Field ''status'' TString [Enum [''active'', ''inactive'', ''on-leave''], Default (Const (VStr ''active''))],
      Field ''hospitalId'' TString [Required],
      Field ''notes'' TString []],
    timestamps = True\<rparr>"

text \<open>\<open>src/models/Doctor.js\<close>\<close>

definition hours :: "string \<Rightarrow> field_spec" where
  "hours day = Field day (TNested [Field ''start'' TString [], Field ''end'' TString []]) []"

definition doctorSchema :: schema where
  "doctorSchema = \<lparr>paths =
     [Field ''userId'' TObjectId [Required],
      Field ''hospitalId'' TString [Required],
      Field ''licenseNumber'' TString [],
      Field ''specialization'' TString [],
      Field ''department'' TString [],
      Field ''experience'' TNumber [],
      Field ''qualifications'' (TArray TString) [],
      Field ''consultationFee'' TNumber [],
      Field ''availableHours'' (TNested
        [hours ''monday'', hours ''tuesday'', hours ''wednesday'', hours ''thursday'', hours ''friday'',
         hours ''saturday'', hours ''sunday'']) [],
      Field ''status'' TString [Enum [''Available'', ''Busy'', ''Off Duty''], Default (Const (VStr ''Available''))],
      Field ''rating'' TNumber [Default (Const (VNum 0)), Min 0, Max 5],
      Field ''totalPatients'' TNumber [Default (Const (VNum 0))]],
    timestamps = True\<rparr>"

definition declared :: "schema \<Rightarrow> string list" where
  "declared sch = map fname (paths sch)"

text \<open>All top-level paths of a model: \<open>_id\<close>, the declared ones, the timestamps, the version key.\<close>

definition all_paths :: "schema \<Rightarrow> field_spec list" where
  "all_paths sch =
     Field ''_id'' TObjectId [] # paths sch @
     (if timestamps sch then [Field ''createdAt'' TDate [], Field ''updatedAt'' TDate []] else []) @
     [Field ''__v'' TNumber []]"

section \<open>What a request takes from outside the handlers\<close>

text \<open>
  The clock (its \<open>k\<close>-th reading), the ObjectIds the driver generates, and the library
  functions the handlers and Mongoose call: whether a string is an ObjectId, regular
  expressions, \<open>Date.parse\<close>, \<open>Number\<close> of a string (\<open>None\<close> for \<open>NaN\<close>),
  \<open>toLowerCase\<close> beyond ASCII, the validators of express-validator, \<open>String\<close> of an array,
  of an object or of a number from \<open>1e21\<close> on.

  Two parts of Mongoose are taken whole. \<open>assemble k d\<close> is the value that
  \<open>new Model(d)\<close> leaves at the nested or array path \<open>k\<close> when \<open>d\<close> names paths below
  \<open>k\<close> by dotted property names (\<open>'address.city'\<close>). \<open>operators\<close> is
  \<open>findOneAndUpdate\<close> of an update that names update operators (\<open>$set\<close>, \<open>$inc\<close>,
  \<open>$unset\<close>, ...) or dotted paths: the error that refuses the update before the query is
  sent, or the change made to the document that the query finds, which may fail too.

  With them come the declarations of this repository that are not among the sources:
  the paths of \<open>models/Patient.js\<close> and \<open>models/User.js\<close> and the message of the 403
  response.
\<close>

datatype error =
    CastError
  | ValidationError
  | DuplicateKey
  | ImmutableField
  | BadValue
  | SyntaxError

record env =
  clock :: "nat \<Rightarrow> int"
  oneWeekAgo :: int
  todayStart :: int
  objectId :: "nat \<Rightarrow> string"
  valid_oid :: "string \<Rightarrow> bool"
  regex :: "string \<Rightarrow> (string \<Rightarrow> bool) option"
  parse_date :: "string \<Rightarrow> int option"
  to_number :: "string \<Rightarrow> int option"
  to_lower :: "string \<Rightarrow> string"
  isEmail :: "string \<Rightarrow> bool"
  isISO8601 :: "string \<Rightarrow> bool"
  print_val :: "val \<Rightarrow> string"
  assemble :: "string \<Rightarrow> doc \<Rightarrow> val option"
  operators :: "schema \<Rightarrow> int \<Rightarrow> bool \<Rightarrow> doc \<Rightarrow> error + (doc \<Rightarrow> error + doc)"
  patient_paths :: "field_spec list"
  patient_timestamps :: bool
  role_options :: "opt list"
  user_paths :: "field_spec list"
  user_timestamps :: bool
  denied_message :: string

text \<open>
  Modelled from the spec: \<open>models/Patient.js\<close> and \<open>models/User.js\<close> are not among the
  sources. Of the domain entities "each carries a tenant identifier field"; as in the
  three schemas of the sources it is the String path \<open>hospitalId\<close>. A user "belongs to
  exactly one tenant (except the platform super admin role, which is tenant-less)" and
  has a "role (one of a fixed enumeration)". Every other path and option is a parameter.
\<close>

definition patientSchema :: "env \<Rightarrow> schema" where
  "patientSchema env =
     \<lparr>paths = Field ''hospitalId'' TString [Required] # patient_paths env,
      timestamps = patient_timestamps env\<rparr>"

definition userSchema :: "env \<Rightarrow> schema" where
  "userSchema env =
     \<lparr>paths = Field ''hospitalId'' TString [] # Field ''role'' TString (role_options env) # user_paths env,
      timestamps = user_timestamps env\<rparr>"

section \<open>Casting\<close>

text \<open>
  Mongoose casts every value to the type of its path, when a document is built and when
  an update is prepared; \<open>None\<close> is a \<open>CastError\<close>. \<open>null\<close> is never cast. Strict mode
  (the default) drops the properties that are not paths of the schema, also inside
  nested objects. The setters \<open>trim\<close> and \<open>lowercase\<close> run on the cast string. A value that
  is no array is cast to an array path as the array of that one value.
\<close>

definition lowercase :: "env \<Rightarrow> string \<Rightarrow> string" where
  "lowercase env s = (if list_all (\<lambda>ch. (of_char ch :: nat) < 128) s then map lower s else to_lower env s)"

definition setters :: "env \<Rightarrow> opt list \<Rightarrow> string \<Rightarrow> string" where
  "setters env os s =
     (let s1 = (if Trim \<in> set os then trim s else s)
      in if Lowercase \<in> set os then lowercase env s1 else s1)"

text \<open>\<open>String(v)\<close> of a value that is there.\<close>

definition string_of :: "env \<Rightarrow> val \<Rightarrow> string" where
  "string_of env v =
     (case v of
        VStr s \<Rightarrow> s
      | VNum n \<Rightarrow> (if \<bar>n\<bar> < 10 ^ 21 then show_int n else print_val env v)
      | VBool b \<Rightarrow> (if b then ''true'' else ''false'')
      | VNull \<Rightarrow> ''null''
      | x \<Rightarrow> print_val env x)"

definition cast_string :: "env \<Rightarrow> opt list \<Rightarrow> val \<Rightarrow> val option" where
  "cast_string env os v =
     (case v of
        VNull \<Rightarrow> Some VNull
      | VObj kvs \<Rightarrow>
          (case map_of kvs ''_id'' of
             Some (VStr s) \<Rightarrow> (if s = [] then None else Some (VStr (setters env os s)))
           | _ \<Rightarrow> None)
      | VArr xs \<Rightarrow> None
      | x \<Rightarrow> Some (VStr (setters env os (string_of env x))))"

definition cast_number :: "env \<Rightarrow> val \<Rightarrow> val option" where
  "cast_number env v =
     (case v of
        VNull \<Rightarrow> Some VNull
      | VNum n \<Rightarrow> Some (VNum n)
      | VBool b \<Rightarrow> Some (VNum (if b then 1 else 0))
      | VStr s \<Rightarrow> (if s = [] then Some VNull else map_option VNum (to_number env s))
      | _ \<Rightarrow> None)"

text \<open>A Date holds at most 8.64e15 milliseconds either side of the epoch.\<close>

definition date_of_number :: "int \<Rightarrow> val option" where
  "date_of_number n = (if \<bar>n\<bar> \<le> 8640000000000000 then Some (VNum n) else None)"

definition cast_date :: "env \<Rightarrow> val \<Rightarrow> val option" where
  "cast_date env v =
     (case v of
        VNull \<Rightarrow> Some VNull
      | VNum n \<Rightarrow> date_of_number n
      | VBool b \<Rightarrow> None
      | VStr s \<Rightarrow>
          (if s = [] then Some VNull
           else case to_number env s of
                  Some n \<Rightarrow> (if 275761 \<le> n \<or> n < - 271820 then date_of_number n
                             else map_option VNum (parse_date env s))
                | None \<Rightarrow> map_option VNum (parse_date env s))
      | x \<Rightarrow> map_option VNum (parse_date env (print_val env x)))"

definition cast_objectid :: "env \<Rightarrow> val \<Rightarrow> val option" where
  "cast_objectid env v =
     (let s = (case v of
                 VObj kvs \<Rightarrow>
                   (case map_of kvs ''_id'' of
                      None \<Rightarrow> string_of env v
                    | Some i \<Rightarrow> (if truthy i then string_of env i else string_of env v))
               | _ \<Rightarrow> string_of env v)
      in if v = VNull then Some VNull
         else if valid_oid env s then Some (VStr s)
         else None)"

text \<open>
  The flag says whether an update is cast (\<open>True\<close>) or a document (\<open>False\<close>). For a
  nested path they differ: an update stores a value that is no object as it is; in a
  document it is a \<open>CastError\<close> unless it is falsy.
\<close>

fun cast_value :: "env \<Rightarrow> bool \<Rightarrow> ptype \<Rightarrow> opt list \<Rightarrow> val \<Rightarrow> val option"
  and cast_fields :: "env \<Rightarrow> bool \<Rightarrow> field_spec list \<Rightarrow> doc \<Rightarrow> doc option" where
  "cast_value env upd TString os v = cast_string env os v"
| "cast_value env upd TNumber os v = cast_number env v"
| "cast_value env upd TDate os v = cast_date env v"
| "cast_value env upd TObjectId os v = cast_objectid env v"
| "cast_value env upd (TArray t) os v =
     (case v of
        VNull \<Rightarrow> Some VNull
      | VArr xs \<Rightarrow> map_option VArr (those (map (cast_value env upd t []) xs))
      | x \<Rightarrow> map_option (\<lambda>y. VArr [y]) (cast_value env upd t [] x))"
| "cast_value env upd (TNested fs) os v =
     (case v of
        VObj kvs \<Rightarrow> map_option VObj (cast_fields env upd fs kvs)
      | x \<Rightarrow> (if upd \<or> \<not> truthy x then Some x else None))"
| "cast_fields env upd [] d = Some []"
| "cast_fields env upd (Field k t os # fs) d =
     (case map_of d k of
        None \<Rightarrow> cast_fields env upd fs d
      | Some v \<Rightarrow>
          (case cast_value env upd t os v of
             None \<Rightarrow> None
           | Some v' \<Rightarrow> map_option (Cons (k, v')) (cast_fields env upd fs d)))"

section \<open>Validation\<close>

text \<open>
  The \<open>required\<close> validator rejects \<open>undefined\<close>, \<open>null\<close> and the empty string; the
  \<open>enum\<close> validator lets \<open>undefined\<close> and \<open>null\<close> pass and otherwise wants a member of
  the list; \<open>min\<close> and \<open>max\<close> bound a number that is there.
\<close>

definition required_ok :: "val option \<Rightarrow> bool" where
  "required_ok v = (case v of None \<Rightarrow> False | Some VNull \<Rightarrow> False | Some (VStr s) \<Rightarrow> s \<noteq> [] | Some _ \<Rightarrow> True)"

definition enum_ok :: "string list \<Rightarrow> val option \<Rightarrow> bool" where
  "enum_ok vals v = (case v of None \<Rightarrow> True | Some VNull \<Rightarrow> True | Some (VStr s) \<Rightarrow> s \<in> set vals | Some _ \<Rightarrow> False)"

definition opt_ok :: "opt \<Rightarrow> val option \<Rightarrow> bool" where
  "opt_ok x v =
     (case x of
        Required \<Rightarrow> required_ok v
      | Enum vals \<Rightarrow> enum_ok vals v
      | Min m \<Rightarrow> (case v of Some (VNum n) \<Rightarrow> m \<le> n | _ \<Rightarrow> True)
      | Max m \<Rightarrow> (case v of Some (VNum n) \<Rightarrow> n \<le> m | _ \<Rightarrow> True)
      | _ \<Rightarrow> True)"

definition path_ok :: "opt list \<Rightarrow> val option \<Rightarrow> bool" where
  "path_ok os v = list_all (\<lambda>x. opt_ok x v) os"

text \<open>Document validation, run by \<open>save()\<close>: every path is checked, also inside nested objects.\<close>

fun valid_value :: "ptype \<Rightarrow> val option \<Rightarrow> bool"
  and valid_fields :: "field_spec list \<Rightarrow> doc \<Rightarrow> bool" where
  "valid_value (TNested fs) v = valid_fields fs (case v of Some (VObj kvs) \<Rightarrow> kvs | _ \<Rightarrow> [])"
| "valid_value t v = True"
| "valid_fields [] d = True"
| "valid_fields (Field k t os # fs) d =
     (path_ok os (map_of d k) \<and> valid_value t (map_of d k) \<and> valid_fields fs d)"

definition validate :: "schema \<Rightarrow> doc \<Rightarrow> bool" where
  "validate sch d = valid_fields (paths sch) d"

text \<open>
  Update validators (\<open>runValidators: true\<close>): only the paths the update sets are
  checked, those inside a nested object that the update supplies among them.
\<close>

fun valid_set :: "ptype \<Rightarrow> val \<Rightarrow> bool"
  and valid_sets :: "field_spec list \<Rightarrow> doc \<Rightarrow> bool" where
  "valid_set (TNested fs) v = (case v of VObj kvs \<Rightarrow> valid_sets fs kvs | _ \<Rightarrow> True)"
| "valid_set t v = True"
| "valid_sets [] u = True"
| "valid_sets (Field k t os # fs) u =
     ((case map_of u k of
         None \<Rightarrow> True
       | Some v \<Rightarrow> path_ok os (Some v) \<and> valid_set t v) \<and>
      valid_sets fs u)"

definition validate_update :: "schema \<Rightarrow> doc \<Rightarrow> bool" where
  "validate_update sch u = valid_sets (paths sch) u"

section \<open>Defaults\<close>

text \<open>
  \<open>new Model(data)\<close> keeps of the data what is a path of the schema and gives every
  path that is still \<open>undefined\<close> its default: the declared one, the empty array for
  an array path, and for a nested object the object of the defaults inside it, when
  there are any. An empty nested object is not stored (\<open>minimize\<close>). The order of the
  properties of an object carries no meaning; the model lists them in the order of the
  schema.
\<close>

fun declared_default :: "int \<Rightarrow> opt list \<Rightarrow> val option" where
  "declared_default now [] = None"
| "declared_default now (Default (Const v) # os) = Some v"
| "declared_default now (Default DateNow # os) = Some (VNum now)"
| "declared_default now (x # os) = declared_default now os"

fun default_value :: "int \<Rightarrow> ptype \<Rightarrow> opt list \<Rightarrow> val option"
  and default_object :: "int \<Rightarrow> field_spec list \<Rightarrow> doc" where
  "default_value now (TNested fs) os = (case default_object now fs of [] \<Rightarrow> None | kvs \<Rightarrow> Some (VObj kvs))"
| "default_value now (TArray t) os = (case declared_default now os of None \<Rightarrow> Some (VArr []) | Some v \<Rightarrow> Some v)"
| "default_value now t os = declared_default now os"
| "default_object now [] = []"
| "default_object now (Field k t os # fs) =
     (case default_value now t os of None \<Rightarrow> [] | Some v \<Rightarrow> [(k, v)]) @
     default_object now fs"

text \<open>
  The value the data give to path \<open>k\<close>. A dotted property name reaches below a nested or
  array path only: below any other path it names no path of the schema and is dropped.
\<close>

definition compound :: "ptype \<Rightarrow> bool" where
  "compound t = (case t of TNested fs \<Rightarrow> True | TArray u \<Rightarrow> True | _ \<Rightarrow> False)"

definition dotted :: "string \<Rightarrow> doc \<Rightarrow> bool" where
  "dotted k d = list_ex (\<lambda>(n, v). take (Suc (length k)) n = k @ ''.'') d"

definition path_value :: "env \<Rightarrow> string \<Rightarrow> ptype \<Rightarrow> doc \<Rightarrow> val option" where
  "path_value env k t d = (if compound t \<and> dotted k d then assemble env k d else map_of d k)"

text \<open>
  A nested path takes an object, whose properties are set path by path. What else the
  data give to it is passed over in strict mode: at the top level anything but \<open>null\<close>,
  inside a nested object an array.
\<close>

definition passed_over :: "bool \<Rightarrow> ptype \<Rightarrow> val \<Rightarrow> bool" where
  "passed_over outer t v =
     (case t of
        TNested fs \<Rightarrow> (case v of VObj kvs \<Rightarrow> False | VNull \<Rightarrow> False | VArr xs \<Rightarrow> True | _ \<Rightarrow> outer)
      | _ \<Rightarrow> False)"

fun fill_value :: "env \<Rightarrow> int \<Rightarrow> ptype \<Rightarrow> val \<Rightarrow> val option"
  and fill_fields :: "env \<Rightarrow> int \<Rightarrow> bool \<Rightarrow> field_spec list \<Rightarrow> doc \<Rightarrow> doc" where
  "fill_value env now (TNested fs) v =
     (case v of
        VObj kvs \<Rightarrow> (case fill_fields env now False fs kvs of [] \<Rightarrow> None | kvs' \<Rightarrow> Some (VObj kvs'))
      | _ \<Rightarrow> Some v)"
| "fill_value env now t v = Some v"
| "fill_fields env now outer [] d = []"
| "fill_fields env now outer (Field k t os # fs) d =
     (case (case path_value env k t d of
              None \<Rightarrow> default_value now t os
            | Some v \<Rightarrow> (if passed_over outer t v then default_value now t os else fill_value env now t v)) of
        None \<Rightarrow> []
      | Some v \<Rightarrow> [(k, v)]) @
     fill_fields env now outer fs d"

section \<open>Collections and the Mongoose operations the handlers call\<close>

definition matches :: "doc \<Rightarrow> doc \<Rightarrow> bool" where
  "matches q d = list_all (\<lambda>(k, v). map_of d k = Some v) q"

definition findOne :: "(doc \<Rightarrow> bool) \<Rightarrow> doc list \<Rightarrow> doc option" where
  "findOne flt coll = List.find flt coll"

fun replace_first :: "(doc \<Rightarrow> bool) \<Rightarrow> doc \<Rightarrow> doc list \<Rightarrow> doc list" where
  "replace_first flt d' [] = []"
| "replace_first flt d' (d # ds) = (if flt d then d' # ds else d # replace_first flt d' ds)"

fun remove_first :: "(doc \<Rightarrow> bool) \<Rightarrow> doc list \<Rightarrow> doc list" where
  "remove_first flt [] = []"
| "remove_first flt (d # ds) = (if flt d then ds else d # remove_first flt ds)"

definition unique_paths :: "schema \<Rightarrow> string list" where
  "unique_paths sch = map fname (filter (\<lambda>f. Unique \<in> set (fopts f)) (paths sch))"

text \<open>A write of document \<open>d\<close> next to the documents \<open>others\<close> violates a unique index when
  one of them carries the same value at one of the indexed paths \<open>ks\<close>.\<close>

definition duplicate_key :: "string list \<Rightarrow> doc \<Rightarrow> doc list \<Rightarrow> bool" where
  "duplicate_key ks d others = list_ex (\<lambda>k. list_ex (\<lambda>x. map_of x k = map_of d k) others) ks"

text \<open>
  \<open>new Model(data)\<close>: a generated \<open>_id\<close> and the version key \<open>0\<close> unless the data bring
  them, what the data give to the paths of the schema, and the defaults.
\<close>

definition new_model :: "env \<Rightarrow> schema \<Rightarrow> string \<Rightarrow> int \<Rightarrow> doc \<Rightarrow> doc" where
  "new_model env sch oid now data =
     fill_fields env now True (all_paths sch) (data @ [(''_id'', VStr oid), (''__v'', VNum 0)])"

text \<open>
  \<open>doc.save()\<close> of a new document. A value that could not be cast fails the validation,
  as does a document without \<open>_id\<close>; then the validators run; then the timestamps are
  set (\<open>createdAt\<close> is kept when the data brought one, \<open>updatedAt\<close> starts equal to it);
  then the insert, which the unique indexes may refuse.
\<close>

definition stamp_new :: "schema \<Rightarrow> int \<Rightarrow> doc \<Rightarrow> doc" where
  "stamp_new sch now d =
     (if timestamps sch then
        (let c = (case map_of d ''createdAt'' of None \<Rightarrow> VNum now | Some VNull \<Rightarrow> VNum now | Some v \<Rightarrow> v)
         in AList.update ''updatedAt'' c (AList.update ''createdAt'' c d))
      else d)"

definition save :: "env \<Rightarrow> schema \<Rightarrow> int \<Rightarrow> doc \<Rightarrow> doc list \<Rightarrow> error + (doc \<times> doc list)" where
  "save env sch now d coll =
     (case cast_fields env False (all_paths sch) d of
        None \<Rightarrow> Inl ValidationError
      | Some d1 \<Rightarrow>
          (if \<not> (case map_of d1 ''_id'' of Some (VStr i) \<Rightarrow> True | _ \<Rightarrow> False) then Inl ValidationError
           else if \<not> validate sch d1 then Inl ValidationError
           else let d' = stamp_new sch now d1
                in if duplicate_key (''_id'' # unique_paths sch) d' coll then Inl DuplicateKey
                   else Inr (d', coll @ [d'])))"

text \<open>
  \<open>Model.findOneAndUpdate(filter, update, {new: true, runValidators})\<close>. An update that
  is a plain object of path/value pairs is applied as \<open>$set\<close>. With \<open>timestamps\<close> a
  \<open>createdAt\<close> and an \<open>updatedAt\<close> in the update are removed and \<open>updatedAt\<close> is set to
  the current time. The values are cast in strict mode, a nested object path by path,
  and the update validators run, all before the query is sent. The first matching
  document is modified and returned, \<open>null\<close> when there is none. The store refuses a
  change of \<open>_id\<close> and a duplicate under a unique index.

  \<open>plain_update\<close> says that no property name of the object, at any depth, begins with
  \<open>$\<close> or contains a dot.
\<close>

definition plain_key :: "string \<Rightarrow> bool" where
  "plain_key k = ((case k of [] \<Rightarrow> True | ch # r \<Rightarrow> ch \<noteq> CHR ''$'') \<and> CHR ''.'' \<notin> set k)"

fun plain :: "val \<Rightarrow> bool" where
  "plain (VObj kvs) = list_all (\<lambda>kv. plain_key (fst kv) \<and> plain (snd kv)) kvs"
| "plain (VArr xs) = list_all plain xs"
| "plain v = True"

definition plain_update :: "doc \<Rightarrow> bool" where
  "plain_update u = plain (VObj u)"

definition cast_update :: "env \<Rightarrow> schema \<Rightarrow> int \<Rightarrow> doc \<Rightarrow> doc option" where
  "cast_update env sch now upd =
     (if timestamps sch then
        map_option (\<lambda>u. u @ [(''updatedAt'', VNum now)])
          (cast_fields env True (all_paths sch) (AList.delete ''updatedAt'' (AList.delete ''createdAt'' upd)))
      else cast_fields env True (all_paths sch) upd)"

definition prepare_update ::
  "env \<Rightarrow> schema \<Rightarrow> int \<Rightarrow> bool \<Rightarrow> doc \<Rightarrow> error + (doc \<Rightarrow> error + doc)" where
  "prepare_update env sch now runValidators upd =
     (if \<not> plain_update upd then operators env sch now runValidators upd
      else case cast_update env sch now upd of
             None \<Rightarrow> Inl CastError
           | Some u \<Rightarrow>
               (if runValidators \<and> \<not> validate_update sch u then Inl ValidationError
                else Inr (\<lambda>d. Inr (AList.merge d u))))"

definition findOneAndUpdate ::
  "env \<Rightarrow> schema \<Rightarrow> int \<Rightarrow> bool \<Rightarrow> (doc \<Rightarrow> bool) \<Rightarrow> doc \<Rightarrow> doc list \<Rightarrow> error + (doc option \<times> doc list)" where
  "findOneAndUpdate env sch now runValidators flt upd coll =
     (case prepare_update env sch now runValidators upd of
        Inl err \<Rightarrow> Inl err
      | Inr change \<Rightarrow>
          (case List.find flt coll of
             None \<Rightarrow> Inr (None, coll)
           | Some d \<Rightarrow>
               (case change d of
                  Inl err \<Rightarrow> Inl err
                | Inr d' \<Rightarrow>
                    (if map_of d' ''_id'' \<noteq> map_of d ''_id'' then Inl ImmutableField
                     else if duplicate_key (filter (\<lambda>k. map_of d' k \<noteq> map_of d k) (unique_paths sch)) d'
                               (remove_first flt coll) then Inl DuplicateKey
                     else Inr (Some d', replace_first flt d' coll)))))"

definition findOneAndDelete :: "(doc \<Rightarrow> bool) \<Rightarrow> doc list \<Rightarrow> doc option \<times> doc list" where
  "findOneAndDelete flt coll = (List.find flt coll, remove_first flt coll)"

text \<open>
  \<open>populate(path, select)\<close>: the reference at \<open>path\<close> is replaced by the selected fields
  of the referenced document (\<open>_id\<close> always among them), by \<open>null\<close> when there is none.
\<close>

definition populate :: "string \<Rightarrow> string list \<Rightarrow> doc list \<Rightarrow> doc \<Rightarrow> doc" where
  "populate p sel coll d =
     (case map_of d p of
        None \<Rightarrow> d
      | Some VNull \<Rightarrow> d
      | Some v \<Rightarrow>
          AList.update p
            (case List.find (\<lambda>r. map_of r ''_id'' = Some v) coll of
               None \<Rightarrow> VNull
             | Some r \<Rightarrow> VObj (AList.restrict (set (''_id'' # sel)) r)) d)"

section \<open>Requests, the store, responses\<close>

text \<open>
  What the \<open>auth\<close> middleware leaves on the request once the bearer credential is
  accepted: \<open>req.hospitalId\<close>, \<open>req.user._id\<close> and \<open>req.user.role\<close>.
\<close>

record ctx =
  hospitalId :: string
  userId :: string
  role :: string

text \<open>\<open>req.params\<close> (the one path parameter a route binds), \<open>req.body\<close>, \<open>req.query\<close>.\<close>

record request =
  rid :: string
  rbody :: doc
  rquery :: "(string \<times> string) list"

record db =
  patients :: "doc list"
  doctors :: "doc list"
  staff :: "doc list"
  appointments :: "doc list"
  users :: "doc list"

record response =
  code :: nat
  json :: doc

definition server_error :: response where
  "server_error = \<lparr>code = 500, json = [(''success'', VBool False), (''message'', VStr ''Server error'')]\<rparr>"

definition not_found :: "string \<Rightarrow> response" where
  "not_found msg = \<lparr>code = 404, json = [(''success'', VBool False), (''message'', VStr msg)]\<rparr>"

definition ok_data :: "val \<Rightarrow> response" where
  "ok_data v = \<lparr>code = 200, json = [(''success'', VBool True), (''data'', v)]\<rparr>"

definition ok_message :: "string \<Rightarrow> val \<Rightarrow> response" where
  "ok_message msg v = \<lparr>code = 200, json = [(''success'', VBool True), (''message'', VStr msg), (''data'', v)]\<rparr>"

definition created :: "string \<Rightarrow> val \<Rightarrow> response" where
  "created msg v = \<lparr>code = 201, json = [(''success'', VBool True), (''message'', VStr msg), (''data'', v)]\<rparr>"

definition forbidden :: "env \<Rightarrow> response" where
  "forbidden env = \<lparr>code = 403, json = [(''success'', VBool False), (''message'', VStr (denied_message env))]\<rparr>"

text \<open>
  Modelled from the spec: \<open>middleware/auth.js\<close> is not among the sources. The role gate
  \<open>authorize(...roles)\<close> "compares the authenticated role against the permitted set,
  allows the request to proceed only on membership; otherwise fails with a
  permission-denied error", status 403 in the standard envelope.
\<close>

definition authorize :: "env \<Rightarrow> string list \<Rightarrow> ctx \<Rightarrow> (db \<Rightarrow> response \<times> db) \<Rightarrow> db \<Rightarrow> response \<times> db" where
  "authorize env roles c handler d = (if role c \<in> set roles then handler d else (forbidden env, d))"

section \<open>What the handlers compute\<close>

text \<open>\<open>parseInt(req.query.name) || k\<close>: \<open>NaN\<close> and \<open>0\<close> are falsy.\<close>

definition query_int :: "request \<Rightarrow> string \<Rightarrow> int \<Rightarrow> number" where
  "query_int rq name k =
     (case map_of (rquery rq) name of
        None \<Rightarrow> Num k
      | Some s \<Rightarrow> (case parseInt s of NaN \<Rightarrow> Num k | Num n \<Rightarrow> (if n = 0 then Num k else Num n) | x \<Rightarrow> x))"

text \<open>\<open>if (req.query.name)\<close>: a query parameter is truthy when it is a non-empty string.\<close>

definition query_str :: "request \<Rightarrow> string \<Rightarrow> string option" where
  "query_str rq name = (case map_of (rquery rq) name of None \<Rightarrow> None | Some s \<Rightarrow> (if s = [] then None else Some s))"

text \<open>
  \<open>Math.ceil(total / limit)\<close>. The count of a collection is below \<open>2^53\<close>, and then the
  rounded quotient of the doubles has the ceiling of the exact one.
\<close>

definition ceil_div :: "int \<Rightarrow> int \<Rightarrow> int" where
  "ceil_div a b = - ((- a) div b)"

definition pages :: "nat \<Rightarrow> number \<Rightarrow> val" where
  "pages n limit =
     (case limit of
        Num l \<Rightarrow> (if l = 0 then VNull else VNum (ceil_div (int n) l))
      | NaN \<Rightarrow> VNull
      | _ \<Rightarrow> VNum 0)"

text \<open>
  \<open>.skip(skip).limit(limit)\<close>: the server takes a skip and a limit that are 64-bit
  integers and refuses a negative skip; the driver sends a negative limit as its
  absolute value, and \<open>0\<close> means no limit.
\<close>

definition skip_limit :: "number \<Rightarrow> number \<Rightarrow> doc list \<Rightarrow> error + doc list" where
  "skip_limit skip limit xs =
     (case (skip, limit) of
        (Num s, Num l) \<Rightarrow>
          (if s < 0 \<or> 2 ^ 63 \<le> s \<or> 2 ^ 63 \<le> \<bar>l\<bar> then Inl BadValue
           else Inr ((if l = 0 then id else take (nat \<bar>l\<bar>)) (drop (nat s) xs)))
      | _ \<Rightarrow> Inl BadValue)"

definition str_key :: "string \<Rightarrow> doc \<Rightarrow> string option" where
  "str_key k d = (case map_of d k of Some (VStr s) \<Rightarrow> Some s | _ \<Rightarrow> None)"

definition num_key :: "string \<Rightarrow> doc \<Rightarrow> int option" where
  "num_key k d = (case map_of d k of Some (VNum n) \<Rightarrow> Some n | _ \<Rightarrow> None)"

definition doc_id :: "doc \<Rightarrow> val" where
  "doc_id d = (case map_of d ''_id'' of None \<Rightarrow> VNull | Some v \<Rightarrow> v)"

text \<open>\<open>{ field: regex }\<close>: the field is a string that the expression matches.\<close>

definition field_matches :: "(string \<Rightarrow> bool) \<Rightarrow> string \<Rightarrow> doc \<Rightarrow> bool" where
  "field_matches rx k d = (case map_of d k of Some (VStr s) \<Rightarrow> rx s | _ \<Rightarrow> False)"

text \<open>Object spread \<open>{...v}\<close> of a value that may be absent.\<close>

definition spread :: "val option \<Rightarrow> doc" where
  "spread v =
     (case v of
        Some (VObj kvs) \<Rightarrow> kvs
      | Some (VArr xs) \<Rightarrow> zip (map show_nat [0..<length xs]) xs
      | Some (VStr s) \<Rightarrow> zip (map show_nat [0..<length s]) (map (\<lambda>ch. VStr [ch]) s)
      | _ \<Rightarrow> [])"

text \<open>
  express-validator (the chain of \<open>POST /api/patients\<close>): a field is turned into a string
  before it is sanitized or validated; \<open>trim()\<close> removes white space at both ends and
  writes the result back into \<open>req.body\<close>.
\<close>

definition to_string :: "env \<Rightarrow> val option \<Rightarrow> string" where
  "to_string env v =
     (case v of
        None \<Rightarrow> []
      | Some VNull \<Rightarrow> []
      | Some x \<Rightarrow> string_of env x)"

definition validation_error :: "string \<Rightarrow> string \<Rightarrow> val option \<Rightarrow> val" where
  "validation_error p msg v =
     VObj ([(''type'', VStr ''field'')] @ (case v of None \<Rightarrow> [] | Some x \<Rightarrow> [(''value'', x)]) @
           [(''msg'', VStr msg), (''path'', VStr p), (''location'', VStr ''body'')])"

definition sanitize_patient :: "env \<Rightarrow> doc \<Rightarrow> doc" where
  "sanitize_patient env b =
     AList.update ''lastName'' (VStr (trim (to_string env (map_of b ''lastName''))))
       (AList.update ''firstName'' (VStr (trim (to_string env (map_of b ''firstName'')))) b)"

definition validationResult :: "env \<Rightarrow> doc \<Rightarrow> val list" where
  "validationResult env b =
     (let b' = sanitize_patient env b;
          chk = (\<lambda>p ok msg. if ok (to_string env (map_of b' p)) then [] else [validation_error p msg (map_of b' p)])
      in chk ''firstName'' (\<lambda>s. 2 \<le> length s) ''First name must be at least 2 characters'' @
         chk ''lastName'' (\<lambda>s. 2 \<le> length s) ''Last name must be at least 2 characters'' @
         chk ''email'' (isEmail env) ''Please provide a valid email'' @
         chk ''phone'' (\<lambda>s. s \<noteq> []) ''Phone number is required'' @
         chk ''dateOfBirth'' (isISO8601 env) ''Please provide a valid date of birth'' @
         chk ''gender'' (\<lambda>s. s \<in> set [''Male'', ''Female'', ''Other'']) ''Invalid gender'')"

section \<open>The patients router\<close>

text \<open>The filter \<open>{ _id: req.params.id, hospitalId: req.hospitalId }\<close> of every by-id handler.\<close>

definition by_id :: "ctx \<Rightarrow> request \<Rightarrow> doc \<Rightarrow> bool" where
  "by_id c rq = matches [(''_id'', VStr (rid rq)), (''hospitalId'', VStr (hospitalId c))]"

definition pagination :: "number \<Rightarrow> number \<Rightarrow> nat \<Rightarrow> val" where
  "pagination page limit n =
     VObj [(''page'', json_number page), (''limit'', json_number limit), (''total'', VNum (int n)),
           (''pages'', pages n limit)]"

definition ok_page :: "doc list \<Rightarrow> number \<Rightarrow> number \<Rightarrow> nat \<Rightarrow> response" where
  "ok_page ds page limit n =
     \<lparr>code = 200, json = [(''success'', VBool True), (''data'', VArr (map VObj ds)),
                          (''pagination'', pagination page limit n)]\<rparr>"

text \<open>\<open>GET /api/patients\<close>\<close>

definition patients_query :: "env \<Rightarrow> ctx \<Rightarrow> request \<Rightarrow> error + (doc \<Rightarrow> bool)" where
  "patients_query env c rq =
     (let tenant = matches [(''hospitalId'', VStr (hospitalId c))];
          status = (case query_str rq ''status'' of
                      None \<Rightarrow> (\<lambda>d. True)
                    | Some s \<Rightarrow> matches [(''status'', VStr s)])
      in case query_str rq ''search'' of
           None \<Rightarrow> Inr (\<lambda>d. tenant d \<and> status d)
         | Some pat \<Rightarrow>
             (case regex env pat of
                None \<Rightarrow> Inl SyntaxError
              | Some rx \<Rightarrow>
                  Inr (\<lambda>d. tenant d \<and>
                            (field_matches rx ''firstName'' d \<or> field_matches rx ''lastName'' d \<or>
                             field_matches rx ''email'' d \<or> field_matches rx ''phone'' d) \<and>
                            status d)))"

definition get_patients :: "env \<Rightarrow> ctx \<Rightarrow> request \<Rightarrow> db \<Rightarrow> response \<times> db" where
  "get_patients env c rq d =
     (let page = query_int rq ''page'' 1;
          limit = query_int rq ''limit'' 10;
          skip = times (minus_one page) limit
      in case patients_query env c rq of
           Inl err \<Rightarrow> (server_error, d)
         | Inr query \<Rightarrow>
             (let found = rev (sort_key (num_key ''createdAt'') (filter query (patients d)))
              in case skip_limit skip limit found of
                   Inl err \<Rightarrow> (server_error, d)
                 | Inr ps \<Rightarrow> (ok_page ps page limit (length (filter query (patients d))), d)))"

text \<open>\<open>GET /api/patients/:id\<close>\<close>

definition get_patient :: "env \<Rightarrow> ctx \<Rightarrow> request \<Rightarrow> db \<Rightarrow> response \<times> db" where
  "get_patient env c rq d =
     (if \<not> valid_oid env (rid rq) then (server_error, d)
      else case findOne (by_id c rq) (patients d) of
             None \<Rightarrow> (not_found ''Patient not found'', d)
           | Some p \<Rightarrow> (ok_data (VObj p), d))"

text \<open>\<open>POST /api/patients\<close>\<close>

definition patientData :: "env \<Rightarrow> ctx \<Rightarrow> request \<Rightarrow> doc" where
  "patientData env c rq = AList.update ''hospitalId'' (VStr (hospitalId c)) (sanitize_patient env (rbody rq))"

definition post_patient :: "env \<Rightarrow> ctx \<Rightarrow> request \<Rightarrow> db \<Rightarrow> response \<times> db" where
  "post_patient env c rq d =
     (let errors = validationResult env (rbody rq)
      in if errors \<noteq> [] then
           (\<lparr>code = 400, json = [(''success'', VBool False), (''message'', VStr ''Validation errors''),
                                 (''errors'', VArr errors)]\<rparr>, d)
         else
           (let patient = new_model env (patientSchema env) (objectId env 0) (clock env 0) (patientData env c rq)
            in case save env (patientSchema env) (clock env 0) patient (patients d) of
                 Inl err \<Rightarrow> (server_error, d)
               | Inr (p, ps) \<Rightarrow> (created ''Patient created successfully'' (VObj p), d\<lparr>patients := ps\<rparr>)))"

text \<open>\<open>PUT /api/patients/:id\<close>\<close>

definition put_patient :: "env \<Rightarrow> ctx \<Rightarrow> request \<Rightarrow> db \<Rightarrow> response \<times> db" where
  "put_patient env c rq d =
     (if \<not> valid_oid env (rid rq) then (server_error, d)
      else case findOneAndUpdate env (patientSchema env) (clock env 0) True (by_id c rq) (rbody rq) (patients d) of
             Inl err \<Rightarrow> (server_error, d)
           | Inr (None, ps) \<Rightarrow> (not_found ''Patient not found'', d)
           | Inr (Some p, ps) \<Rightarrow> (ok_message ''Patient updated successfully'' (VObj p), d\<lparr>patients := ps\<rparr>))"

text \<open>\<open>DELETE /api/patients/:id\<close>\<close>

definition delete_patient :: "env \<Rightarrow> ctx \<Rightarrow> request \<Rightarrow> db \<Rightarrow> response \<times> db" where
  "delete_patient env c rq d =
     (if \<not> valid_oid env (rid rq) then (server_error, d)
      else case findOneAndDelete (by_id c rq) (patients d) of
             (None, ps) \<Rightarrow> (not_found ''Patient not found'', d)
           | (Some p, ps) \<Rightarrow>
               (\<lparr>code = 200, json = [(''success'', VBool True), (''message'', VStr ''Patient deleted successfully'')]\<rparr>,
                d\<lparr>patients := ps\<rparr>))"

text \<open>\<open>GET /api/patients/recent\<close>\<close>

definition get_recent_patients :: "env \<Rightarrow> ctx \<Rightarrow> request \<Rightarrow> db \<Rightarrow> response \<times> db" where
  "get_recent_patients env c rq d =
     (let query = (\<lambda>p. matches [(''hospitalId'', VStr (hospitalId c))] p \<and>
                        (case map_of p ''lastVisit'' of Some (VNum t) \<Rightarrow> oneWeekAgo env \<le> t | _ \<Rightarrow> False))
      in (ok_data (VArr (map VObj (rev (sort_key (num_key ''lastVisit'') (filter query (patients d)))))), d))"

section \<open>The appointments router\<close>

definition populate_appointment :: "db \<Rightarrow> doc \<Rightarrow> doc" where
  "populate_appointment d a =
     populate ''createdBy'' [''name''] (users d)
       (populate ''doctorId'' [''specialization'', ''department''] (doctors d)
          (populate ''patientId'' [''firstName'', ''lastName'', ''email'', ''phone''] (patients d) a))"

definition by_schedule :: "doc \<Rightarrow> int option \<times> string option" where
  "by_schedule a = (num_key ''appointmentDate'' a, str_key ''appointmentTime'' a)"

text \<open>\<open>GET /api/appointments\<close>\<close>

definition appointments_query :: "env \<Rightarrow> ctx \<Rightarrow> request \<Rightarrow> error + (doc \<Rightarrow> bool)" where
  "appointments_query env c rq =
     (let tenant = matches [(''hospitalId'', VStr (hospitalId c))];
          status = (case query_str rq ''status'' of
                      None \<Rightarrow> (\<lambda>d. True)
                    | Some s \<Rightarrow> matches [(''status'', VStr s)])
      in case (query_str rq ''startDate'', query_str rq ''endDate'') of
           (Some a, Some b) \<Rightarrow>
             (case (parse_date env a, parse_date env b) of
                (Some lo, Some hi) \<Rightarrow>
                  Inr (\<lambda>d. tenant d \<and> status d \<and>
                            (case map_of d ''appointmentDate'' of Some (VNum t) \<Rightarrow> lo \<le> t \<and> t \<le> hi | _ \<Rightarrow> False))
              | _ \<Rightarrow> Inl CastError)
         | _ \<Rightarrow> Inr (\<lambda>d. tenant d \<and> status d))"

definition get_appointments :: "env \<Rightarrow> ctx \<Rightarrow> request \<Rightarrow> db \<Rightarrow> response \<times> db" where
  "get_appointments env c rq d =
     (let page = query_int rq ''page'' 1;
          limit = query_int rq ''limit'' 10;
          skip = times (minus_one page) limit
      in case appointments_query env c rq of
           Inl err \<Rightarrow> (server_error, d)
         | Inr query \<Rightarrow>
             (let found = sort_key by_schedule (filter query (appointments d))
              in case skip_limit skip limit found of
                   Inl err \<Rightarrow> (server_error, d)
                 | Inr as \<Rightarrow>
                     (ok_page (map (populate_appointment d) as) page limit
                        (length (filter query (appointments d))), d)))"

text \<open>\<open>POST /api/appointments\<close>\<close>

definition appointmentData :: "ctx \<Rightarrow> request \<Rightarrow> doc" where
  "appointmentData c rq =
     AList.update ''createdBy'' (VStr (userId c))
       (AList.update ''hospitalId'' (VStr (hospitalId c)) (rbody rq))"

definition post_appointment :: "env \<Rightarrow> ctx \<Rightarrow> request \<Rightarrow> db \<Rightarrow> response \<times> db" where
  "post_appointment env c rq d =
     (let appointment = new_model env appointmentSchema (objectId env 0) (clock env 0) (appointmentData c rq)
      in case save env appointmentSchema (clock env 0) appointment (appointments d) of
           Inl err \<Rightarrow> (server_error, d)
         | Inr (a, as) \<Rightarrow>
             (let d' = d\<lparr>appointments := as\<rparr>
              in (created ''Appointment created successfully'' (VObj (populate_appointment d' a)), d')))"

text \<open>\<open>PUT /api/appointments/:id\<close>\<close>

definition put_appointment :: "env \<Rightarrow> ctx \<Rightarrow> request \<Rightarrow> db \<Rightarrow> response \<times> db" where
  "put_appointment env c rq d =
     (if \<not> valid_oid env (rid rq) then (server_error, d)
      else case findOneAndUpdate env appointmentSchema (clock env 0) True (by_id c rq) (rbody rq) (appointments d) of
             Inl err \<Rightarrow> (server_error, d)
           | Inr (None, as) \<Rightarrow> (not_found ''Appointment not found'', d)
           | Inr (Some a, as) \<Rightarrow>
               (let d' = d\<lparr>appointments := as\<rparr>
                in (ok_message ''Appointment updated successfully'' (VObj (populate_appointment d' a)), d')))"

text \<open>\<open>DELETE /api/appointments/:id\<close>\<close>

definition delete_appointment :: "env \<Rightarrow> ctx \<Rightarrow> request \<Rightarrow> db \<Rightarrow> response \<times> db" where
  "delete_appointment env c rq d =
     (if \<not> valid_oid env (rid rq) then (server_error, d)
      else case findOneAndUpdate env appointmentSchema (clock env 0) False (by_id c rq)
                  [(''status'', VStr ''Cancelled'')] (appointments d) of
             Inl err \<Rightarrow> (server_error, d)
           | Inr (None, as) \<Rightarrow> (not_found ''Appointment not found'', d)
           | Inr (Some a, as) \<Rightarrow>
               (ok_message ''Appointment cancelled successfully'' (VObj a), d\<lparr>appointments := as\<rparr>))"

text \<open>\<open>GET /api/appointments/upcoming\<close>\<close>

definition get_upcoming_appointments :: "env \<Rightarrow> ctx \<Rightarrow> request \<Rightarrow> db \<Rightarrow> response \<times> db" where
  "get_upcoming_appointments env c rq d =
     (let query = (\<lambda>a. matches [(''hospitalId'', VStr (hospitalId c))] a \<and>
                        (case map_of a ''appointmentDate'' of Some (VNum t) \<Rightarrow> todayStart env \<le> t | _ \<Rightarrow> False) \<and>
                        (matches [(''status'', VStr ''Scheduled'')] a \<or> matches [(''status'', VStr ''Confirmed'')] a));
          found = take 10 (sort_key by_schedule (filter query (appointments d)));
          pop = (\<lambda>a. populate ''doctorId'' [''specialization'', ''department''] (doctors d)
                        (populate ''patientId'' [''firstName'', ''lastName'', ''email'', ''phone''] (patients d) a))
      in (ok_data (VArr (map (\<lambda>a. VObj (pop a)) found)), d))"

text \<open>\<open>GET /api/appointments/doctor/:doctorId\<close>\<close>

definition get_doctor_appointments :: "env \<Rightarrow> ctx \<Rightarrow> request \<Rightarrow> db \<Rightarrow> response \<times> db" where
  "get_doctor_appointments env c rq d =
     (if \<not> valid_oid env (rid rq) then (server_error, d)
      else
        (let query = matches [(''doctorId'', VStr (rid rq)), (''hospitalId'', VStr (hospitalId c))];
             found = sort_key by_schedule (filter query (appointments d));
             pop = populate ''patientId'' [''firstName'', ''lastName'', ''email'', ''phone''] (patients d)
         in (ok_data (VArr (map (\<lambda>a. VObj (pop a)) found)), d)))"

section \<open>The staff router\<close>

definition populate_staff :: "db \<Rightarrow> doc \<Rightarrow> doc" where
  "populate_staff d s = populate ''userId'' [''email'', ''role'', ''createdAt''] (users d) s"

text \<open>\<open>GET /api/staff\<close>\<close>

definition staff_query :: "env \<Rightarrow> ctx \<Rightarrow> request \<Rightarrow> error + (doc \<Rightarrow> bool)" where
  "staff_query env c rq =
     (let tenant = matches [(''hospitalId'', VStr (hospitalId c))];
          department = (case query_str rq ''department'' of
                          None \<Rightarrow> (\<lambda>d. True)
                        | Some s \<Rightarrow> matches [(''department'', VStr s)]);
          by_role = (case query_str rq ''role'' of
                       None \<Rightarrow> (\<lambda>d. True)
                     | Some s \<Rightarrow> matches [(''role'', VStr s)])
      in case query_str rq ''search'' of
           None \<Rightarrow> Inr (\<lambda>d. tenant d \<and> department d \<and> by_role d)
         | Some pat \<Rightarrow>
             (case regex env pat of
                None \<Rightarrow> Inl SyntaxError
              | Some rx \<Rightarrow>
                  Inr (\<lambda>d. tenant d \<and> department d \<and> by_role d \<and>
                            (field_matches rx ''employeeId'' d \<or> field_matches rx ''firstName'' d \<or>
                             field_matches rx ''lastName'' d))))"

definition get_staff :: "env \<Rightarrow> ctx \<Rightarrow> request \<Rightarrow> db \<Rightarrow> response \<times> db" where
  "get_staff env c rq d =
     (let page = query_int rq ''page'' 1;
          limit = query_int rq ''limit'' 10;
          skip = times (minus_one page) limit
      in case staff_query env c rq of
           Inl err \<Rightarrow> (server_error, d)
         | Inr query \<Rightarrow>
             (let found = sort_key (\<lambda>s. (str_key ''firstName'' s, str_key ''lastName'' s)) (filter query (staff d))
              in case skip_limit skip limit found of
                   Inl err \<Rightarrow> (server_error, d)
                 | Inr ss \<Rightarrow>
                     (ok_page (map (populate_staff d) ss) page limit (length (filter query (staff d))), d)))"

text \<open>\<open>POST /api/staff\<close>: the user account is saved first, the staff profile second.\<close>

definition userAccountData :: "ctx \<Rightarrow> request \<Rightarrow> doc" where
  "userAccountData c rq =
     AList.update ''hospitalId'' (VStr (hospitalId c))
       (AList.update ''role'' (VStr ''staff'') (spread (map_of (rbody rq) ''userData'')))"

definition staffProfileData :: "ctx \<Rightarrow> request \<Rightarrow> doc \<Rightarrow> doc" where
  "staffProfileData c rq user =
     AList.update ''hospitalId'' (VStr (hospitalId c))
       (AList.update ''userId'' (doc_id user) (spread (map_of (rbody rq) ''staffData'')))"

definition post_staff :: "env \<Rightarrow> ctx \<Rightarrow> request \<Rightarrow> db \<Rightarrow> response \<times> db" where
  "post_staff env c rq d =
     (let user = new_model env (userSchema env) (objectId env 0) (clock env 0) (userAccountData c rq)
      in case save env (userSchema env) (clock env 0) user (users d) of
           Inl err \<Rightarrow> (server_error, d)
         | Inr (u, us) \<Rightarrow>
             (let d1 = d\<lparr>users := us\<rparr>;
                  staff_doc = new_model env staffSchema (objectId env 1) (clock env 1) (staffProfileData c rq u)
              in case save env staffSchema (clock env 1) staff_doc (staff d1) of
                   Inl err \<Rightarrow> (server_error, d1)
                 | Inr (s, ss) \<Rightarrow>
                     (let d2 = d1\<lparr>staff := ss\<rparr>
                      in (created ''Staff member created successfully'' (VObj (populate_staff d2 s)), d2))))"

text \<open>\<open>PUT /api/staff/:id\<close>\<close>

definition put_staff :: "env \<Rightarrow> ctx \<Rightarrow> request \<Rightarrow> db \<Rightarrow> response \<times> db" where
  "put_staff env c rq d =
     (if \<not> valid_oid env (rid rq) then (server_error, d)
      else case findOneAndUpdate env staffSchema (clock env 0) True (by_id c rq) (rbody rq) (staff d) of
             Inl err \<Rightarrow> (server_error, d)
           | Inr (None, ss) \<Rightarrow> (not_found ''Staff member not found'', d)
           | Inr (Some s, ss) \<Rightarrow>
               (let d' = d\<lparr>staff := ss\<rparr>
                in (ok_message ''Staff member updated successfully'' (VObj (populate_staff d' s)), d')))"

text \<open>\<open>DELETE /api/staff/:id\<close>\<close>

definition delete_staff :: "env \<Rightarrow> ctx \<Rightarrow> request \<Rightarrow> db \<Rightarrow> response \<times> db" where
  "delete_staff env c rq d =
     (if \<not> valid_oid env (rid rq) then (server_error, d)
      else case findOneAndUpdate env staffSchema (clock env 0) False (by_id c rq)
                  [(''status'', VStr ''inactive'')] (staff d) of
             Inl err \<Rightarrow> (server_error, d)
           | Inr (None, ss) \<Rightarrow> (not_found ''Staff member not found'', d)
           | Inr (Some s, ss) \<Rightarrow>
               (ok_message ''Staff member deactivated successfully'' (VObj s), d\<lparr>staff := ss\<rparr>))"

text \<open>\<open>GET /api/staff/departments\<close>: the active staff of the tenant, grouped by department.\<close>

definition group_key :: "doc \<Rightarrow> val" where
  "group_key s = (case map_of s ''department'' of None \<Rightarrow> VNull | Some v \<Rightarrow> v)"

definition pushed :: "doc \<Rightarrow> val" where
  "pushed s =
     VObj (concat (map (\<lambda>k. case map_of s k of None \<Rightarrow> [] | Some v \<Rightarrow> [(k, v)])
                       [''_id'', ''firstName'', ''lastName'', ''role'', ''employeeId'']))"

definition get_staff_departments :: "env \<Rightarrow> ctx \<Rightarrow> request \<Rightarrow> db \<Rightarrow> response \<times> db" where
  "get_staff_departments env c rq d =
     (let active = filter (matches [(''hospitalId'', VStr (hospitalId c)), (''status'', VStr ''active'')]) (staff d);
          keys = sort_key (\<lambda>k. case k of VStr s \<Rightarrow> Some s | _ \<Rightarrow> None) (remdups (map group_key active));
          grp = (\<lambda>k. let members = filter (\<lambda>s. group_key s = k) active
                      in VObj [(''_id'', k), (''count'', VNum (int (length members))),
                               (''staff'', VArr (map pushed members))])
      in (ok_data (VArr (map grp keys)), d))"

section \<open>The doctors router\<close>

definition populate_doctor :: "db \<Rightarrow> doc \<Rightarrow> doc" where
  "populate_doctor d x = populate ''userId'' [''name'', ''email'', ''phone'', ''avatar''] (users d) x"

text \<open>\<open>GET /api/doctors\<close>\<close>

definition get_doctors :: "env \<Rightarrow> ctx \<Rightarrow> request \<Rightarrow> db \<Rightarrow> response \<times> db" where
  "get_doctors env c rq d =
     (let found = rev (sort_key (num_key ''createdAt'')
                         (filter (matches [(''hospitalId'', VStr (hospitalId c))]) (doctors d)))
      in (ok_data (VArr (map (\<lambda>x. VObj (populate_doctor d x)) found)), d))"

text \<open>\<open>GET /api/doctors/:id\<close>\<close>

definition get_doctor :: "env \<Rightarrow> ctx \<Rightarrow> request \<Rightarrow> db \<Rightarrow> response \<times> db" where
  "get_doctor env c rq d =
     (if \<not> valid_oid env (rid rq) then (server_error, d)
      else case findOne (by_id c rq) (doctors d) of
             None \<Rightarrow> (not_found ''Doctor not found'', d)
           | Some x \<Rightarrow> (ok_data (VObj (populate_doctor d x)), d))"

text \<open>\<open>POST /api/doctors\<close>: the profile is saved, then the requester's role is rewritten.\<close>

definition doctorData :: "ctx \<Rightarrow> request \<Rightarrow> doc" where
  "doctorData c rq =
     AList.update ''userId'' (VStr (userId c))
       (AList.update ''hospitalId'' (VStr (hospitalId c)) (rbody rq))"

definition by_user_id :: "ctx \<Rightarrow> doc \<Rightarrow> bool" where
  "by_user_id c = matches [(''_id'', VStr (userId c))]"

definition post_doctor :: "env \<Rightarrow> ctx \<Rightarrow> request \<Rightarrow> db \<Rightarrow> response \<times> db" where
  "post_doctor env c rq d =
     (let doctor = new_model env doctorSchema (objectId env 0) (clock env 0) (doctorData c rq)
      in case save env doctorSchema (clock env 0) doctor (doctors d) of
           Inl err \<Rightarrow> (server_error, d)
         | Inr (x, xs) \<Rightarrow>
             (let d1 = d\<lparr>doctors := xs\<rparr>
              in case findOneAndUpdate env (userSchema env) (clock env 1) False
                        (by_user_id c) [(''role'', VStr ''doctor'')] (users d1) of
                   Inl err \<Rightarrow> (server_error, d1)
                 | Inr (u, us) \<Rightarrow>
                     (created ''Doctor profile created successfully'' (VObj x), d1\<lparr>users := us\<rparr>)))"

text \<open>\<open>PUT /api/doctors/:id\<close>\<close>

definition put_doctor :: "env \<Rightarrow> ctx \<Rightarrow> request \<Rightarrow> db \<Rightarrow> response \<times> db" where
  "put_doctor env c rq d =
     (if \<not> valid_oid env (rid rq) then (server_error, d)
      else case findOneAndUpdate env doctorSchema (clock env 0) True (by_id c rq) (rbody rq) (doctors d) of
             Inl err \<Rightarrow> (server_error, d)
           | Inr (None, xs) \<Rightarrow> (not_found ''Doctor not found'', d)
           | Inr (Some x, xs) \<Rightarrow>
               (let d' = d\<lparr>doctors := xs\<rparr>
                in (ok_message ''Doctor updated successfully'' (VObj (populate_doctor d' x)), d')))"

text \<open>\<open>GET /api/doctors/available\<close>\<close>

definition get_available_doctors :: "env \<Rightarrow> ctx \<Rightarrow> request \<Rightarrow> db \<Rightarrow> response \<times> db" where
  "get_available_doctors env c rq d =
     (let found = filter (matches [(''hospitalId'', VStr (hospitalId c)), (''status'', VStr ''Available'')]) (doctors d)
      in (ok_data (VArr (map (\<lambda>x. VObj (populate_doctor d x)) found)), d))"

section \<open>The reports, reminders and prescriptions routers\<close>

definition coming_soon :: "nat \<Rightarrow> string \<Rightarrow> val \<Rightarrow> db \<Rightarrow> response \<times> db" where
  "coming_soon st msg v d = (\<lparr>code = st, json = [(''success'', VBool True), (''message'', VStr msg), (''data'', v)]\<rparr>, d)"

section \<open>Routes: middleware and handler of each registration\<close>

datatype endpoint =
    GetPatients | GetPatient | PostPatient | PutPatient | DeletePatient | GetRecentPatients
  | GetAppointments | PostAppointment | PutAppointment | DeleteAppointment
  | GetUpcomingAppointments | GetDoctorAppointments
  | GetStaff | PostStaff | PutStaff | DeleteStaff | GetStaffDepartments
  | GetDoctors | GetDoctor | PostDoctor | PutDoctor | GetAvailableDoctors
  | GetReports | PostReport | GetReminders | PostReminder | GetPrescriptions | PostPrescription

text \<open>The roles of the route's \<open>authorize(...)\<close>; \<open>None\<close> for a route that has \<open>auth\<close> only.\<close>

fun guard :: "endpoint \<Rightarrow> string list option" where
  "guard GetPatients = None"
| "guard GetPatient = None"
| "guard PostPatient = Some [''doctor'', ''hospitalOwner'', ''staff'']"
| "guard PutPatient = Some [''doctor'', ''hospitalOwner'', ''staff'']"
| "guard DeletePatient = Some [''hospitalOwner'']"
| "guard GetRecentPatients = None"
| "guard GetAppointments = None"
| "guard PostAppointment = Some [''doctor'', ''hospitalOwner'', ''staff'']"
| "guard PutAppointment = Some [''doctor'', ''hospitalOwner'', ''staff'']"
| "guard DeleteAppointment = Some [''doctor'', ''hospitalOwner'', ''staff'']"
| "guard GetUpcomingAppointments = None"
| "guard GetDoctorAppointments = Some [''doctor'', ''hospitalOwner'', ''staff'']"
| "guard GetStaff = Some [''hospitalOwner'', ''staff'']"
| "guard PostStaff = Some [''hospitalOwner'']"
| "guard PutStaff = Some [''hospitalOwner'']"
| "guard DeleteStaff = Some [''hospitalOwner'']"
| "guard GetStaffDepartments = None"
| "guard GetDoctors = None"
| "guard GetDoctor = None"
| "guard PostDoctor = Some [''hospitalOwner'', ''doctor'']"
| "guard PutDoctor = Some [''hospitalOwner'', ''doctor'']"
| "guard GetAvailableDoctors = None"
| "guard GetReports = Some [''doctor'', ''hospitalOwner'', ''staff'']"
| "guard PostReport = Some [''doctor'', ''hospitalOwner'']"
| "guard GetReminders = None"
| "guard PostReminder = Some [''doctor'', ''hospitalOwner'', ''staff'']"
| "guard GetPrescriptions = None"
| "guard PostPrescription = Some [''doctor'']"

fun handler :: "env \<Rightarrow> ctx \<Rightarrow> endpoint \<Rightarrow> request \<Rightarrow> db \<Rightarrow> response \<times> db" where
  "handler env c GetPatients rq = get_patients env c rq"
| "handler env c GetPatient rq = get_patient env c rq"
| "handler env c PostPatient rq = post_patient env c rq"
| "handler env c PutPatient rq = put_patient env c rq"
| "handler env c DeletePatient rq = delete_patient env c rq"
| "handler env c GetRecentPatients rq = get_recent_patients env c rq"
| "handler env c GetAppointments rq = get_appointments env c rq"
| "handler env c PostAppointment rq = post_appointment env c rq"
| "handler env c PutAppointment rq = put_appointment env c rq"
| "handler env c DeleteAppointment rq = delete_appointment env c rq"
| "handler env c GetUpcomingAppointments rq = get_upcoming_appointments env c rq"
| "handler env c GetDoctorAppointments rq = get_doctor_appointments env c rq"
| "handler env c GetStaff rq = get_staff env c rq"
| "handler env c PostStaff rq = post_staff env c rq"
| "handler env c PutStaff rq = put_staff env c rq"
| "handler env c DeleteStaff rq = delete_staff env c rq"
| "handler env c GetStaffDepartments rq = get_staff_departments env c rq"
| "handler env c GetDoctors rq = get_doctors env c rq"
| "handler env c GetDoctor rq = get_doctor env c rq"
| "handler env c PostDoctor rq = post_doctor env c rq"
| "handler env c PutDoctor rq = put_doctor env c rq"
| "handler env c GetAvailableDoctors rq = get_available_doctors env c rq"
| "handler env c GetReports rq = coming_soon 200 ''Reports endpoint - Coming soon'' (VArr [])"
| "handler env c PostReport rq = coming_soon 201 ''Report generation - Coming soon'' (VObj [])"
| "handler env c GetReminders rq = coming_soon 200 ''Reminders endpoint - Coming soon'' (VArr [])"
| "handler env c PostReminder rq = coming_soon 201 ''Reminder creation - Coming soon'' (VObj [])"
| "handler env c GetPrescriptions rq = coming_soon 200 ''Prescriptions endpoint - Coming soon'' (VArr [])"
| "handler env c PostPrescription rq = coming_soon 201 ''Prescription creation - Coming soon'' (VObj [])"

text \<open>An authenticated request runs the role gate, when the route has one, then the handler.\<close>

definition serve :: "env \<Rightarrow> ctx \<Rightarrow> endpoint \<Rightarrow> request \<Rightarrow> db \<Rightarrow> response \<times> db" where
  "serve env c e rq d =
     (case guard e of
        None \<Rightarrow> handler env c e rq d
      | Some roles \<Rightarrow> authorize env roles c (handler env c e rq) d)"

section \<open>Express routing\<close>

text \<open>
  A router tries its routes in the order of registration and runs the first one that
  matches the verb and the path; none of the handlers passes control on. A path is its
  list of segments; \<open>:name\<close> matches any one segment, a literal matches without regard
  to case.
\<close>

datatype http_method = GET | POST | PUT | DELETE

datatype seg = Lit string | Param string

fun match_path :: "seg list \<Rightarrow> string list \<Rightarrow> (string \<times> string) list option" where
  "match_path [] [] = Some []"
| "match_path (Lit l # ps) (s # ss) = (if map lower l = map lower s then match_path ps ss else None)"
| "match_path (Param n # ps) (s # ss) =
     (case match_path ps ss of None \<Rightarrow> None | Some bs \<Rightarrow> Some ((n, s) # bs))"
| "match_path _ _ = None"

type_synonym route = "http_method \<times> seg list \<times> endpoint"

fun dispatch :: "route list \<Rightarrow> http_method \<Rightarrow> string list \<Rightarrow> (endpoint \<times> (string \<times> string) list) option" where
  "dispatch [] m p = None"
| "dispatch ((m', pat, e) # rs) m p =
     (if m' = m then
        (case match_path pat p of
           None \<Rightarrow> dispatch rs m p
         | Some bs \<Rightarrow> Some (e, bs))
      else dispatch rs m p)"

definition patients_router :: "route list" where
  "patients_router =
     [(GET, [], GetPatients),
      (GET, [Param ''id''], GetPatient),
      (POST, [], PostPatient),
      (PUT, [Param ''id''], PutPatient),
      (DELETE, [Param ''id''], DeletePatient),
      (GET, [Lit ''recent''], GetRecentPatients)]"

definition appointments_router :: "route list" where
  "appointments_router =
     [(GET, [], GetAppointments),
      (POST, [], PostAppointment),
      (PUT, [Param ''id''], PutAppointment),
      (DELETE, [Param ''id''], DeleteAppointment),
      (GET, [Lit ''upcoming''], GetUpcomingAppointments),
      (GET, [Lit ''doctor'', Param ''doctorId''], GetDoctorAppointments)]"

definition staff_router :: "route list" where
  "staff_router =
     [(GET, [], GetStaff),
      (POST, [], PostStaff),
      (PUT, [Param ''id''], PutStaff),
      (DELETE, [Param ''id''], DeleteStaff),
      (GET, [Lit ''departments''], GetStaffDepartments)]"

definition doctors_router :: "route list" where
  "doctors_router =
     [(GET, [], GetDoctors),
      (GET, [Param ''id''], GetDoctor),
      (POST, [], PostDoctor),
      (PUT, [Param ''id''], PutDoctor),
      (GET, [Lit ''available''], GetAvailableDoctors)]"

text \<open>A request to a router: \<open>None\<close> when no route of the router takes it.\<close>

definition route_request ::
  "route list \<Rightarrow> env \<Rightarrow> ctx \<Rightarrow> http_method \<Rightarrow> string list \<Rightarrow> doc \<Rightarrow> (string \<times> string) list \<Rightarrow> db \<Rightarrow> (response \<times> db) option" where
  "route_request router env c m p b q d =
     (case dispatch router m p of
        None \<Rightarrow> None
      | Some (e, bs) \<Rightarrow>
          Some (serve env c e \<lparr>rid = (case bs of [] \<Rightarrow> [] | (n, v) # _ \<Rightarrow> v), rbody = b, rquery = q\<rparr> d))"

section \<open>Vocabulary of the properties\<close>

text \<open>The collection a route works on.\<close>

fun collection :: "endpoint \<Rightarrow> db \<Rightarrow> doc list" where
  "collection GetPatients d = patients d"
| "collection GetPatient d = patients d"
| "collection PostPatient d = patients d"
| "collection PutPatient d = patients d"
| "collection DeletePatient d = patients d"
| "collection GetRecentPatients d = patients d"
| "collection GetAppointments d = appointments d"
| "collection PostAppointment d = appointments d"
| "collection PutAppointment d = appointments d"
| "collection DeleteAppointment d = appointments d"
| "collection GetUpcomingAppointments d = appointments d"
| "collection GetDoctorAppointments d = appointments d"
| "collection GetStaff d = staff d"
| "collection PostStaff d = staff d"
| "collection PutStaff d = staff d"
| "collection DeleteStaff d = staff d"
| "collection GetStaffDepartments d = staff d"
| "collection GetDoctors d = doctors d"
| "collection GetDoctor d = doctors d"
| "collection PostDoctor d = doctors d"
| "collection PutDoctor d = doctors d"
| "collection GetAvailableDoctors d = doctors d"
| "collection e d = []"

text \<open>The routes that read, update or delete one record by the identifier in the path.\<close>

definition by_id_endpoints :: "endpoint list" where
  "by_id_endpoints =
     [GetPatient, PutPatient, DeletePatient, PutAppointment, DeleteAppointment,
      PutStaff, DeleteStaff, GetDoctor, PutDoctor]"

definition create_endpoints :: "endpoint list" where
  "create_endpoints = [PostPatient, PostAppointment, PostStaff, PostDoctor]"

definition list_endpoints :: "endpoint list" where
  "list_endpoints = [GetPatients, GetAppointments, GetStaff]"

text \<open>The message of the route's 404 response.\<close>

definition missing :: "endpoint \<Rightarrow> string" where
  "missing e =
     (if e \<in> set [GetPatient, PutPatient, DeletePatient] then ''Patient not found''
      else if e \<in> set [PutAppointment, DeleteAppointment] then ''Appointment not found''
      else if e \<in> set [PutStaff, DeleteStaff] then ''Staff member not found''
      else ''Doctor not found'')"

text \<open>The role gate of the route lets the context through.\<close>

definition admitted :: "ctx \<Rightarrow> endpoint \<Rightarrow> bool" where
  "admitted c e = (case guard e of None \<Rightarrow> True | Some roles \<Rightarrow> role c \<in> set roles)"

text \<open>The routes that update a record with the request body.\<close>

definition put_endpoints :: "endpoint list" where
  "put_endpoints = [PutPatient, PutAppointment, PutStaff, PutDoctor]"

text \<open>The filtered collection a list route pages through, when its query can be built.\<close>

definition list_query :: "env \<Rightarrow> ctx \<Rightarrow> endpoint \<Rightarrow> request \<Rightarrow> error + (doc \<Rightarrow> bool)" where
  "list_query env c e rq =
     (if e = GetPatients then patients_query env c rq
      else if e = GetAppointments then appointments_query env c rq
      else staff_query env c rq)"

text \<open>The order in which a list route sorts what its query finds.\<close>

definition list_order :: "endpoint \<Rightarrow> doc list \<Rightarrow> doc list" where
  "list_order e xs =
     (if e = GetPatients then rev (sort_key (num_key ''createdAt'') xs)
      else if e = GetAppointments then sort_key by_schedule xs
      else sort_key (\<lambda>s. (str_key ''firstName'' s, str_key ''lastName'' s)) xs)"

text \<open>The form in which a list route returns a document: with the references it populates.\<close>

definition list_shape :: "endpoint \<Rightarrow> db \<Rightarrow> doc \<Rightarrow> doc" where
  "list_shape e d x =
     (if e = GetPatients then x
      else if e = GetAppointments then populate_appointment d x
      else populate_staff d x)"

text \<open>The documents and the pagination block of a list response.\<close>

definition response_data :: "response \<Rightarrow> val list" where
  "response_data r = (case map_of (json r) ''data'' of Some (VArr xs) \<Rightarrow> xs | _ \<Rightarrow> [])"

definition response_pagination :: "response \<Rightarrow> doc" where
  "response_pagination r = (case map_of (json r) ''pagination'' of Some (VObj kvs) \<Rightarrow> kvs | _ \<Rightarrow> [])"

text \<open>The store invariant: within a collection no two documents share an \<open>_id\<close>.\<close>

definition unique_ids :: "db \<Rightarrow> bool" where
  "unique_ids d =
     (distinct (map doc_id (patients d)) \<and> distinct (map doc_id (doctors d)) \<and>
      distinct (map doc_id (staff d)) \<and> distinct (map doc_id (appointments d)) \<and>
      distinct (map doc_id (users d)))"

section \<open>Example data\<close>

definition is_hex :: "char \<Rightarrow> bool" where
  "is_hex ch = (case digit_val ch of None \<Rightarrow> False | Some v \<Rightarrow> v < 16)"

definition example_env :: env where
  "example_env =
     \<lparr>clock = (\<lambda>k. 1700000000000 + int k),
      oneWeekAgo = 1699395200000,
      todayStart = 1699920000000,
      objectId = (\<lambda>k. if k = 0 then ''65a0000000000000000000f0'' else ''65a0000000000000000000f1''),
      valid_oid = (\<lambda>s. length s = 24 \<and> list_all is_hex s),
      regex = (\<lambda>p. Some (\<lambda>s. True)),
      parse_date = (\<lambda>s. if s = ''1985-03-02'' then Some 478569600000 else None),
      to_number = (\<lambda>s. case parseInt s of Num n \<Rightarrow> (if show_int n = s then Some n else None) | _ \<Rightarrow> None),
      to_lower = (\<lambda>s. s),
      isEmail = (\<lambda>s. CHR ''@'' \<in> set s),
      isISO8601 = (\<lambda>s. length s = 10),
      print_val = (\<lambda>v. ''[object Object]''),
      assemble = (\<lambda>k d. None),
      operators = (\<lambda>sch now rv upd. Inl BadValue),
      patient_paths =
        [Field ''firstName'' TString [Required, Trim], Field ''lastName'' TString [Required, Trim],
         Field ''email'' TString [Required, Lowercase], Field ''phone'' TString [Required],
         Field ''dateOfBirth'' TDate [Required], Field ''gender'' TString [Required, Enum [''Male'', ''Female'', ''Other'']],
         Field ''status'' TString [], Field ''lastVisit'' TDate []],
      patient_timestamps = True,
      role_options = [Required],
      user_paths =
        [Field ''name'' TString [Required], Field ''email'' TString [Required, Lowercase],
         Field ''password'' TString [Required], Field ''phone'' TString [], Field ''avatar'' TString []],
      user_timestamps = True,
      denied_message = ''Access denied''\<rparr>"

definition owner_h1 :: ctx where
  "owner_h1 = \<lparr>hospitalId = ''h1'', userId = ''65a0000000000000000000b1'', role = ''hospitalOwner''\<rparr>"

definition owner_h2 :: ctx where
  "owner_h2 = \<lparr>hospitalId = ''h2'', userId = ''65a0000000000000000000b2'', role = ''hospitalOwner''\<rparr>"

definition patient_h2 :: ctx where
  "patient_h2 = \<lparr>hospitalId = ''h2'', userId = ''65a0000000000000000000b3'', role = ''patient''\<rparr>"

definition appt1 :: doc where
  "appt1 =
     [(''_id'', VStr ''65a0000000000000000000a1''), (''hospitalId'', VStr ''h1''),
      (''patientId'', VStr ''65a0000000000000000000c1''), (''doctorId'', VStr ''65a0000000000000000000d1''),
      (''appointmentDate'', VNum 1700100000000), (''appointmentTime'', VStr ''10:30''),
      (''duration'', VNum 30), (''reason'', VStr ''Checkup''), (''type'', VStr ''In-Person''),
      (''status'', VStr ''Cancelled''), (''createdBy'', VStr ''65a0000000000000000000b1''),
      (''createdAt'', VNum 1699000000000), (''updatedAt'', VNum 1699000000000), (''__v'', VNum 0)]"

definition appt2 :: doc where
  "appt2 =
     [(''_id'', VStr ''65a0000000000000000000a2''), (''hospitalId'', VStr ''h1''),
      (''patientId'', VStr ''65a0000000000000000000c1''), (''doctorId'', VStr ''65a0000000000000000000d1''),
      (''appointmentDate'', VNum 1700200000000), (''appointmentTime'', VStr ''09:00''),
      (''duration'', VNum 30), (''reason'', VStr ''Follow-up''), (''type'', VStr ''Virtual''),
      (''status'', VStr ''Scheduled''), (''createdBy'', VStr ''65a0000000000000000000b1''),
      (''createdAt'', VNum 1699000000001), (''updatedAt'', VNum 1699000000001), (''__v'', VNum 0)]"

definition appt3 :: doc where
  "appt3 =
     [(''_id'', VStr ''65a0000000000000000000a3''), (''hospitalId'', VStr ''h1''),
      (''patientId'', VStr ''65a0000000000000000000c1''), (''doctorId'', VStr ''65a0000000000000000000d1''),
      (''appointmentDate'', VNum 1700300000000), (''appointmentTime'', VStr ''14:15''),
      (''duration'', VNum 45), (''reason'', VStr ''Review''), (''type'', VStr ''In-Person''),
      (''status'', VStr ''Confirmed''), (''createdBy'', VStr ''65a0000000000000000000b1''),
      (''createdAt'', VNum 1699000000002), (''updatedAt'', VNum 1699000000002), (''__v'', VNum 0)]"

definition user1 :: doc where
  "user1 =
     [(''_id'', VStr ''65a0000000000000000000b1''), (''name'', VStr ''Olive Owner''),
      (''email'', VStr ''olive@h1.example''), (''password'', VStr ''hash''),
      (''role'', VStr ''hospitalOwner''), (''hospitalId'', VStr ''h1''),
      (''createdAt'', VNum 1698000000000), (''updatedAt'', VNum 1698000000000), (''__v'', VNum 0)]"

definition patient1 :: doc where
  "patient1 =
     [(''_id'', VStr ''65a0000000000000000000c1''), (''firstName'', VStr ''Ada''), (''lastName'', VStr ''Byron''),
      (''email'', VStr ''ada@mail.example''), (''phone'', VStr ''555-0100''),
      (''dateOfBirth'', VNum 660787200000), (''gender'', VStr ''Female''), (''hospitalId'', VStr ''h1''),
      (''createdAt'', VNum 1698500000000), (''updatedAt'', VNum 1698500000000), (''__v'', VNum 0)]"

definition staff1 :: doc where
  "staff1 =
     [(''_id'', VStr ''65a0000000000000000000e1''), (''userId'', VStr ''65a0000000000000000000b4''),
      (''employeeId'', VStr ''E-001''), (''firstName'', VStr ''Sam''), (''lastName'', VStr ''Reed''),
      (''department'', VStr ''Nursing''), (''role'', VStr ''Nurse''), (''phone'', VStr ''555-0101''),
      (''email'', VStr ''sam@h1.example''), (''gender'', VStr ''Male''), (''joiningDate'', VNum 1690000000000),
      (''salary'', VNum 4000), (''status'', VStr ''active''), (''hospitalId'', VStr ''h1''),
      (''createdAt'', VNum 1690000000000), (''updatedAt'', VNum 1690000000000), (''__v'', VNum 0)]"

definition doctor1 :: doc where
  "doctor1 =
     [(''_id'', VStr ''65a0000000000000000000d1''), (''userId'', VStr ''65a0000000000000000000b5''),
      (''hospitalId'', VStr ''h1''), (''specialization'', VStr ''Cardiology''), (''department'', VStr ''Cardiology''),
      (''qualifications'', VArr [VStr ''MD'']), (''status'', VStr ''Available''), (''rating'', VNum 4),
      (''totalPatients'', VNum 12), (''createdAt'', VNum 1698100000000), (''updatedAt'', VNum 1698100000000),
      (''__v'', VNum 0)]"

definition example_db :: db where
  "example_db =
     \<lparr>patients = [patient1], doctors = [doctor1], staff = [staff1],
      appointments = [appt1, appt2, appt3], users = [user1]\<rparr>"

definition by_path :: "string \<Rightarrow> request" where
  "by_path i = \<lparr>rid = i, rbody = [], rquery = []\<rparr>"

definition new_patient_rq :: request where
  "new_patient_rq =
     \<lparr>rid = [], rbody =
        [(''firstName'', VStr '' Grace ''), (''lastName'', VStr ''Hopper''), (''email'', VStr ''grace@mail.example''),
         (''phone'', VStr ''555-0199''), (''dateOfBirth'', VStr ''1985-03-02''), (''gender'', VStr ''Female''),
         (''hospitalId'', VStr ''h2'')],
      rquery = []\<rparr>"

definition new_user :: doc where
  "new_user =
     [(''_id'', VStr ''65a0000000000000000000f0''), (''hospitalId'', VStr ''h1''), (''role'', VStr ''staff''),
      (''name'', VStr ''Nora Nurse''), (''email'', VStr ''nora@h1.example''), (''password'', VStr ''hash''),
      (''__v'', VNum 0), (''createdAt'', VNum 1700000000000), (''updatedAt'', VNum 1700000000000)]"

definition new_staff_rq :: request where
  "new_staff_rq =
     \<lparr>rid = [], rbody =
        [(''userData'', VObj [(''name'', VStr ''Nora Nurse''), (''email'', VStr ''nora@h1.example''),
                              (''password'', VStr ''hash'')]),
         (''staffData'', VObj [(''firstName'', VStr ''Nora'')])],
      rquery = []\<rparr>"

definition new_doctor_rq :: request where
  "new_doctor_rq =
     \<lparr>rid = [], rbody =
        [(''userId'', VStr ''65a0000000000000000000b9''), (''specialization'', VStr ''Cardiology''),
         (''department'', VStr ''Cardiology'')],
      rquery = []\<rparr>"

text \<open>A field of the document a query returned.\<close>

definition field_of :: "doc option \<Rightarrow> string \<Rightarrow> val option" where
  "field_of x k = (case x of None \<Rightarrow> None | Some d \<Rightarrow> map_of d k)"


definition page_rq :: "string \<Rightarrow> string \<Rightarrow> request" where
  "page_rq p l = \<lparr>rid = [], rbody = [], rquery = [(''page'', p), (''limit'', l)]\<rparr>"

section \<open>Basic facts\<close>

lemmas example_defs = example_env_def example_db_def owner_h1_def owner_h2_def patient_h2_def
  appt1_def appt2_def appt3_def user1_def patient1_def staff1_def doctor1_def by_path_def

lemma by_id_iff:
  "by_id c rq x \<longleftrightarrow>
     map_of x ''_id'' = Some (VStr (rid rq)) \<and> map_of x ''hospitalId'' = Some (VStr (hospitalId c))"
  by (simp add: by_id_def matches_def)

lemma foreign_record_no_match:
  assumes "distinct (map doc_id coll)" and "r \<in> set coll"
    and "map_of r ''_id'' = Some (VStr (rid rq))"
    and "map_of r ''hospitalId'' = Some (VStr t)" and "t \<noteq> hospitalId c"
  shows "List.find (by_id c rq) coll = None"
proof -
  have "\<not> by_id c rq x" if "x \<in> set coll" for x
  proof
    assume m: "by_id c rq x"
    then have "doc_id x = doc_id r"
      using assms(3) by (simp add: by_id_iff doc_id_def)
    moreover have "inj_on doc_id (set coll)"
      using assms(1) by (simp add: distinct_map)
    ultimately have "x = r"
      using that assms(2) by (auto dest: inj_onD)
    with m assms(4,5) show False by (simp add: by_id_iff)
  qed
  then show ?thesis by (simp add: find_None_iff)
qed

lemma absent_record_no_match:
  assumes "\<forall>x \<in> set coll. map_of x ''_id'' \<noteq> Some (VStr (rid rq))"
  shows "List.find (by_id c rq) coll = None"
  using assms by (auto simp: find_None_iff by_id_iff)

lemma findOneAndUpdate_no_match:
  "List.find flt coll = None \<Longrightarrow>
   findOneAndUpdate env sch now rv flt upd coll =
     (case prepare_update env sch now rv upd of Inl err \<Rightarrow> Inl err | Inr change \<Rightarrow> Inr (None, coll))"
  by (simp add: findOneAndUpdate_def split: sum.splits)

lemma code_simps [simp]:
  "code server_error = 500" "code (forbidden env) = 403" "code (not_found m) = 404"
  "code (created m v) = 201" "code (ok_message m v) = 200" "code (ok_data v) = 200"
  by (simp_all add: server_error_def forbidden_def not_found_def created_def ok_message_def ok_data_def)

section \<open>Facts about casting and defaults\<close>

lemma fill_value_scalar: "\<not> compound t \<Longrightarrow> fill_value env now t v = Some v"
  by (cases t) (simp_all add: compound_def)

lemma passed_over_scalar: "\<not> compound t \<Longrightarrow> \<not> passed_over outer t v"
  by (cases t) (simp_all add: compound_def passed_over_def)

lemma fill_fields_first:
  assumes "List.find (\<lambda>f. fname f = k) fs = Some f" and "\<not> compound (ftype f)" and "map_of d k = Some v"
  shows "map_of (fill_fields env now outer fs d) k = Some v"
  using assms
proof (induction fs)
  case Nil
  then show ?case by simp
next
  case (Cons a fs)
  obtain k' t' os' where a: "a = Field k' t' os'" by (cases a)
  show ?case
  proof (cases "k' = k")
    case True
    with Cons.prems a have "f = a" by simp
    with Cons.prems a True show ?thesis
      by (simp add: path_value_def fill_value_scalar passed_over_scalar)
  next
    case False
    with Cons.prems a have "List.find (\<lambda>f. fname f = k) fs = Some f" by simp
    from Cons.IH [OF this Cons.prems(2,3)] a False show ?thesis
      by (simp split: option.splits)
  qed
qed

lemma cast_fields_first:
  assumes "cast_fields env upd fs d = Some d'" and "List.find (\<lambda>f. fname f = k) fs = Some f"
    and "map_of d k = Some v"
  shows "\<exists>v'. cast_value env upd (ftype f) (fopts f) v = Some v' \<and> map_of d' k = Some v'"
  using assms
proof (induction fs arbitrary: d')
  case Nil
  then show ?case by simp
next
  case (Cons a fs)
  obtain k' t' os' where a: "a = Field k' t' os'" by (cases a)
  show ?case
  proof (cases "k' = k")
    case True
    with Cons.prems a have "f = a" by simp
    with Cons.prems a True show ?thesis
      by (auto split: option.splits)
  next
    case False
    with Cons.prems a have f: "List.find (\<lambda>f. fname f = k) fs = Some f" by simp
    from Cons.prems(1) a obtain d'' where c: "cast_fields env upd fs d = Some d''"
      and m: "map_of d' k = map_of d'' k"
      using False by (auto split: option.splits)
    from Cons.IH [OF c f Cons.prems(3)] m show ?thesis by simp
  qed
qed

lemma save_Inr:
  assumes "save env sch now x coll = Inr (p, ps)"
  shows "\<exists>x1 i. cast_fields env False (all_paths sch) x = Some x1 \<and> map_of x1 ''_id'' = Some (VStr i) \<and>
           p = stamp_new sch now x1 \<and> ps = coll @ [p] \<and>
           \<not> duplicate_key (''_id'' # unique_paths sch) p coll"
  using assms
  by (auto simp: save_def Let_def split: if_splits option.splits val.splits)

lemma map_of_stamp_new:
  "k \<noteq> ''createdAt'' \<Longrightarrow> k \<noteq> ''updatedAt'' \<Longrightarrow> map_of (stamp_new sch now x) k = map_of x k"
  by (simp add: stamp_new_def Let_def update_conv')

lemma saved_field:
  assumes "save env sch now (new_model env sch oid now' data) coll = Inr (p, ps)"
    and "List.find (\<lambda>f. fname f = k) (all_paths sch) = Some f"
    and "\<not> compound (ftype f)" and "k \<noteq> ''createdAt''" and "k \<noteq> ''updatedAt''"
    and "map_of data k = Some x"
  shows "ps = coll @ [p] \<and> (\<exists>v. cast_value env False (ftype f) (fopts f) x = Some v \<and> map_of p k = Some v)"
proof -
  from save_Inr [OF assms(1)] obtain x1 where
    c: "cast_fields env False (all_paths sch) (new_model env sch oid now' data) = Some x1"
    and p: "p = stamp_new sch now x1" "ps = coll @ [p]" by blast
  have "map_of (data @ [(''_id'', VStr oid), (''__v'', VNum 0)]) k = Some x"
    using assms(6) by simp
  then have "map_of (new_model env sch oid now' data) k = Some x"
    unfolding new_model_def by (rule fill_fields_first [OF assms(2,3)])
  from cast_fields_first [OF c assms(2) this] p assms(4,5) show ?thesis
    by (simp add: map_of_stamp_new)
qed

lemma find_hospitalId:
  "List.find (\<lambda>f. fname f = ''hospitalId'') (all_paths appointmentSchema) = Some (Field ''hospitalId'' TString [Required])"
  "List.find (\<lambda>f. fname f = ''hospitalId'') (all_paths staffSchema) = Some (Field ''hospitalId'' TString [Required])"
  "List.find (\<lambda>f. fname f = ''hospitalId'') (all_paths doctorSchema) = Some (Field ''hospitalId'' TString [Required])"
  "List.find (\<lambda>f. fname f = ''hospitalId'') (all_paths (patientSchema env)) = Some (Field ''hospitalId'' TString [Required])"
  "List.find (\<lambda>f. fname f = ''hospitalId'') (all_paths (userSchema env)) = Some (Field ''hospitalId'' TString [])"
  "List.find (\<lambda>f. fname f = ''userId'') (all_paths doctorSchema) = Some (Field ''userId'' TObjectId [Required])"
  "List.find (\<lambda>f. fname f = ''role'') (all_paths (userSchema env)) = Some (Field ''role'' TString (role_options env))"
  by (simp_all add: all_paths_def appointmentSchema_def staffSchema_def doctorSchema_def patientSchema_def
      userSchema_def)

lemma saved_hospitalId:
  assumes "save env sch now (new_model env sch oid now' data) coll = Inr (p, ps)"
    and "List.find (\<lambda>f. fname f = ''hospitalId'') (all_paths sch) = Some (Field ''hospitalId'' TString os)"
    and "Trim \<notin> set os" and "Lowercase \<notin> set os"
    and "map_of data ''hospitalId'' = Some (VStr h)"
  shows "ps = coll @ [p] \<and> map_of p ''hospitalId'' = Some (VStr h)"
  using saved_field [OF assms(1,2) _ _ _ assms(5)] assms(3,4)
  by (auto simp: compound_def cast_string_def setters_def string_of_def)

section \<open>Routing\<close>

lemma recent_never_dispatched: "dispatch patients_router m p \<noteq> Some (GetRecentPatients, bs)"
proof (cases p)
  case Nil
  then show ?thesis by (cases m) (simp_all add: patients_router_def)
next
  case (Cons s ss)
  then show ?thesis
    by (cases m; cases ss) (simp_all add: patients_router_def)
qed

lemma available_never_dispatched: "dispatch doctors_router m p \<noteq> Some (GetAvailableDoctors, bs)"
proof (cases p)
  case Nil
  then show ?thesis by (cases m) (simp_all add: doctors_router_def)
next
  case (Cons s ss)
  then show ?thesis
    by (cases m; cases ss) (simp_all add: doctors_router_def)
qed

text \<open>
  C8. In the patients router \<open>GET /:id\<close> is registered before \<open>GET /recent\<close>, and in the
  doctors router before \<open>GET /available\<close>. A request \<open>GET /recent\<close> (\<open>GET /available\<close>)
  is therefore dispatched to the \<open>GET /:id\<close> handler with the literal string bound to
  \<open>id\<close>, and no request at all reaches the handlers of the two later routes.
\<close>

theorem recent_and_available_shadowed_by_id_route:
  "dispatch patients_router GET [''recent''] = Some (GetPatient, [(''id'', ''recent'')]) \<and>
   dispatch doctors_router GET [''available''] = Some (GetDoctor, [(''id'', ''available'')]) \<and>
   (\<forall>m p bs. dispatch patients_router m p \<noteq> Some (GetRecentPatients, bs)) \<and>
   (\<forall>m p bs. dispatch doctors_router m p \<noteq> Some (GetAvailableDoctors, bs))"
  by (simp add: recent_never_dispatched available_never_dispatched)
    (simp add: patients_router_def doctors_router_def)

section \<open>The role gate\<close>

text \<open>
  C5. When the authenticated role is not among the roles of \<open>authorize(...)\<close>, the gate
  answers 403 and the handler behind it does not run, whatever that handler is: the
  store is returned as it was. This holds in particular for every guarded route of the
  patients, appointments, staff, doctors, reports, reminders and prescriptions routers.
\<close>

theorem role_gate_rejects_before_handler:
  assumes "role c \<notin> set roles"
  shows "authorize env roles c h d = (forbidden env, d) \<and> code (forbidden env) = 403 \<and>
         (guard e = Some roles \<longrightarrow> serve env c e rq d = (forbidden env, d))"
  using assms by (simp add: authorize_def serve_def forbidden_def)

theorem role_gate_rejects_before_handler_witness:
  "serve example_env patient_h2 PostStaff new_patient_rq example_db = (forbidden example_env, example_db) \<and>
   code (forbidden example_env) = 403"
proof -
  have 1: "role patient_h2 \<notin> set [''hospitalOwner'']" by (simp add: patient_h2_def)
  have 2: "guard PostStaff = Some [''hospitalOwner'']" by simp
  show ?thesis
    using role_gate_rejects_before_handler [OF 1, of example_env "handler example_env patient_h2 PostStaff new_patient_rq"
        example_db PostStaff new_patient_rq] 2
    by simp
qed


section \<open>Facts about \<open>findOneAndUpdate\<close>\<close>

lemma plain_status: "plain_update [(''status'', VStr s)]"
  by (simp add: plain_update_def plain_key_def)

lemma cast_status_appointment:
  "cast_update env appointmentSchema now [(''status'', VStr s)] =
     Some [(''status'', VStr s), (''updatedAt'', VNum now)]"
  by (simp add: cast_update_def all_paths_def appointmentSchema_def cast_string_def setters_def string_of_def)

lemma cast_status_staff:
  "cast_update env staffSchema now [(''status'', VStr s)] =
     Some [(''status'', VStr s), (''updatedAt'', VNum now)]"
  by (simp add: cast_update_def all_paths_def staffSchema_def cast_string_def setters_def string_of_def)

lemma prepare_status:
  "prepare_update env appointmentSchema now False [(''status'', VStr s)] =
     Inr (\<lambda>d. Inr (AList.merge d [(''status'', VStr s), (''updatedAt'', VNum now)]))"
  "prepare_update env staffSchema now False [(''status'', VStr s)] =
     Inr (\<lambda>d. Inr (AList.merge d [(''status'', VStr s), (''updatedAt'', VNum now)]))"
  by (simp_all add: prepare_update_def plain_status cast_status_appointment cast_status_staff)

section \<open>Tenant isolation of the by-id routes\<close>

lemma serve_no_match:
  assumes "e \<in> set by_id_endpoints"
  shows "\<exists>r. (if \<not> admitted c e then r = forbidden env
              else if \<not> valid_oid env (rid rq) then r = server_error
              else if e \<in> set put_endpoints then r = not_found (missing e) \<or> r = server_error
              else r = not_found (missing e)) \<and>
             (\<forall>d. List.find (by_id c rq) (collection e d) = None \<longrightarrow> serve env c e rq d = (r, d))"
proof -
  define r where "r = fst (serve env c e rq \<lparr>patients = [], doctors = [], staff = [], appointments = [], users = []\<rparr>)"
  have A: "serve env c e rq d = (r, d)" if "List.find (by_id c rq) (collection e d) = None" for d
    using assms that unfolding r_def by_id_endpoints_def
    by (auto simp: serve_def authorize_def
        get_patient_def put_patient_def delete_patient_def put_appointment_def delete_appointment_def
        put_staff_def delete_staff_def get_doctor_def put_doctor_def findOne_def findOneAndDelete_def
        findOneAndUpdate_no_match split: sum.splits)
  have B: "if \<not> admitted c e then r = forbidden env
              else if \<not> valid_oid env (rid rq) then r = server_error
              else if e \<in> set put_endpoints then r = not_found (missing e) \<or> r = server_error
              else r = not_found (missing e)"
    using assms unfolding r_def by_id_endpoints_def
    by (auto simp: serve_def authorize_def admitted_def missing_def put_endpoints_def
        get_patient_def put_patient_def delete_patient_def put_appointment_def delete_appointment_def
        put_staff_def delete_staff_def get_doctor_def put_doctor_def findOne_def findOneAndDelete_def
        findOneAndUpdate_no_match prepare_status split: sum.splits)
  from A B show ?thesis by blast
qed





text \<open>
  C6. For a by-id route, an identifier that no record of the collection carries and an
  identifier of a record that belongs to another tenant draw the same response, status
  and body, from the same request.
\<close>

theorem absent_and_foreign_indistinguishable:
  assumes "e \<in> set by_id_endpoints"
    and "\<forall>x \<in> set (collection e d1). map_of x ''_id'' \<noteq> Some (VStr (rid rq))"
    and "distinct (map doc_id (collection e d2))"
    and "r \<in> set (collection e d2)"
    and "map_of r ''_id'' = Some (VStr (rid rq))"
    and "map_of r ''hospitalId'' = Some (VStr t)"
    and "t \<noteq> hospitalId c"
  shows "fst (serve env c e rq d1) = fst (serve env c e rq d2)"
proof -
  from serve_no_match [OF assms(1), of c env rq] obtain x where
    s: "\<forall>d. List.find (by_id c rq) (collection e d) = None \<longrightarrow> serve env c e rq d = (x, d)"
    by blast
  from s absent_record_no_match [OF assms(2)] have "serve env c e rq d1 = (x, d1)" by blast
  moreover from s foreign_record_no_match [OF assms(3-7)] have "serve env c e rq d2 = (x, d2)" by blast
  ultimately show ?thesis by simp
qed

theorem absent_and_foreign_indistinguishable_witness:
  "fst (serve example_env owner_h2 GetPatient (by_path ''65a0000000000000000000c1'') (example_db\<lparr>patients := []\<rparr>)) =
   fst (serve example_env owner_h2 GetPatient (by_path ''65a0000000000000000000c1'') example_db)"
proof -
  have 1: "GetPatient \<in> set by_id_endpoints" by (simp add: by_id_endpoints_def)
  have 2: "\<forall>x \<in> set (collection GetPatient (example_db\<lparr>patients := []\<rparr>)).
             map_of x ''_id'' \<noteq> Some (VStr (rid (by_path ''65a0000000000000000000c1'')))"
    by simp
  have 3: "distinct (map doc_id (collection GetPatient example_db))"
    by (simp add: example_db_def)
  have 4: "patient1 \<in> set (collection GetPatient example_db)" by (simp add: example_db_def)
  have 5: "map_of patient1 ''_id'' = Some (VStr (rid (by_path ''65a0000000000000000000c1'')))"
    by (simp add: patient1_def by_path_def)
  have 6: "map_of patient1 ''hospitalId'' = Some (VStr ''h1'')" by (simp add: patient1_def)
  have 7: "''h1'' \<noteq> hospitalId owner_h2" by (simp add: owner_h2_def)
  show ?thesis
    by (rule absent_and_foreign_indistinguishable [OF 1 2 3 4 5 6 7])
qed

section \<open>Facts about the creating handlers\<close>

lemma cast_objectid_VStr: "cast_objectid env (VStr s) = Some v \<Longrightarrow> v = VStr s"
  by (simp add: cast_objectid_def string_of_def Let_def split: if_splits)

lemma post_patient_created:
  assumes "code (fst (post_patient env c rq d)) = 201"
  shows "\<exists>p. snd (post_patient env c rq d) = d\<lparr>patients := patients d @ [p]\<rparr> \<and>
              map_of p ''hospitalId'' = Some (VStr (hospitalId c))"
proof -
  let ?data = "patientData env c rq"
  obtain p ps where s: "save env (patientSchema env) (clock env 0)
      (new_model env (patientSchema env) (objectId env 0) (clock env 0) ?data) (patients d) = Inr (p, ps)"
    and r: "snd (post_patient env c rq d) = d\<lparr>patients := ps\<rparr>"
    using assms(1) by (auto simp: post_patient_def Let_def split: if_splits sum.splits)
  have "map_of ?data ''hospitalId'' = Some (VStr (hospitalId c))"
    by (simp add: patientData_def update_conv')
  from saved_hospitalId [OF s find_hospitalId(4) _ _ this] r show ?thesis by auto
qed

lemma post_appointment_created:
  assumes "code (fst (post_appointment env c rq d)) = 201"
  shows "\<exists>p. snd (post_appointment env c rq d) = d\<lparr>appointments := appointments d @ [p]\<rparr> \<and>
              map_of p ''hospitalId'' = Some (VStr (hospitalId c))"
proof -
  let ?data = "appointmentData c rq"
  obtain p ps where s: "save env appointmentSchema (clock env 0)
      (new_model env appointmentSchema (objectId env 0) (clock env 0) ?data) (appointments d) = Inr (p, ps)"
    and r: "snd (post_appointment env c rq d) = d\<lparr>appointments := ps\<rparr>"
    using assms(1) by (auto simp: post_appointment_def Let_def split: if_splits sum.splits)
  have "map_of ?data ''hospitalId'' = Some (VStr (hospitalId c))"
    by (simp add: appointmentData_def update_conv')
  from saved_hospitalId [OF s find_hospitalId(1) _ _ this] r show ?thesis by auto
qed

lemma post_doctor_created:
  assumes "code (fst (post_doctor env c rq d)) = 201"
  shows "\<exists>x us. findOneAndUpdate env (userSchema env) (clock env 1) False (by_user_id c)
            [(''role'', VStr ''doctor'')] (users d) = Inr us \<and>
          snd (post_doctor env c rq d) = d\<lparr>doctors := doctors d @ [x], users := snd us\<rparr> \<and>
          map_of x ''hospitalId'' = Some (VStr (hospitalId c)) \<and>
          map_of x ''userId'' = Some (VStr (userId c))"
proof -
  let ?data = "doctorData c rq"
  obtain x xs u us where s: "save env doctorSchema (clock env 0)
      (new_model env doctorSchema (objectId env 0) (clock env 0) ?data) (doctors d) = Inr (x, xs)"
    and f: "findOneAndUpdate env (userSchema env) (clock env 1) False (by_user_id c)
            [(''role'', VStr ''doctor'')] (users d) = Inr (u, us)"
    and r: "snd (post_doctor env c rq d) = d\<lparr>doctors := xs, users := us\<rparr>"
    using assms(1) by (auto simp: post_doctor_def Let_def split: if_splits sum.splits)
  have h: "map_of ?data ''hospitalId'' = Some (VStr (hospitalId c))"
    by (simp add: doctorData_def update_conv')
  have i: "map_of ?data ''userId'' = Some (VStr (userId c))"
    by (simp add: doctorData_def update_conv')
  from saved_field [OF s find_hospitalId(6) _ _ _ i]
  have "map_of x ''userId'' = Some (VStr (userId c))"
    by (auto simp: compound_def dest: cast_objectid_VStr)
  with saved_hospitalId [OF s find_hospitalId(3) _ _ h] f r show ?thesis
    by auto
qed

lemma post_staff_created:
  assumes "code (fst (post_staff env c rq d)) = 201" 
  shows "\<exists>u s. snd (post_staff env c rq d) = d\<lparr>users := users d @ [u], staff := staff d @ [s]\<rparr> \<and>
              map_of s ''hospitalId'' = Some (VStr (hospitalId c)) \<and>
              map_of u ''hospitalId'' = Some (VStr (hospitalId c))"
proof -
  let ?udata = "userAccountData c rq"
  let ?sdata = "staffProfileData c rq"
  obtain u us s ss where su: "save env (userSchema env) (clock env 0)
      (new_model env (userSchema env) (objectId env 0) (clock env 0) ?udata) (users d) = Inr (u, us)"
    and ss: "save env staffSchema (clock env 1)
      (new_model env staffSchema (objectId env 1) (clock env 1) (?sdata u)) (staff d) = Inr (s, ss)"
    and r: "snd (post_staff env c rq d) = d\<lparr>users := us, staff := ss\<rparr>"
    using assms(1) by (auto simp: post_staff_def Let_def split: if_splits sum.splits)
  have hu: "map_of ?udata ''hospitalId'' = Some (VStr (hospitalId c))"
    by (simp add: userAccountData_def update_conv')
  have hs: "map_of (?sdata u) ''hospitalId'' = Some (VStr (hospitalId c))"
    by (simp add: staffProfileData_def update_conv')
  have 1: "ss = staff d @ [s] \<and> map_of s ''hospitalId'' = Some (VStr (hospitalId c))"
    using saved_hospitalId [OF ss find_hospitalId(2) _ _ hs] by simp
  have 2: "us = users d @ [u] \<and> map_of u ''hospitalId'' = Some (VStr (hospitalId c))"
    using saved_hospitalId [OF su find_hospitalId(5) _ _ hu] by simp
  from 1 2 r show ?thesis by auto
qed


section \<open>Creation stamps the tenant of the request\<close>

text \<open>
  C2. Whenever \<open>POST /api/patients\<close>, \<open>/api/appointments\<close>, \<open>/api/staff\<close> or
  \<open>/api/doctors\<close> answers 201, exactly one record has been appended to the route's
  collection and its \<open>hospitalId\<close> is the tenant of the request context, whatever the
  body supplied; for \<open>POST /api/staff\<close> the same holds of the user account created with
  it. (The schemas of Patient and User are not among the sources: they declare the
  path \<open>hospitalId\<close>, as the entities of the specification do.)
\<close>

theorem created_record_carries_request_tenant:
  assumes "e \<in> set create_endpoints"
    and "e = PostPatient \<longrightarrow> ''hospitalId'' \<in> set (declared (patientSchema env))"
    and "code (fst (serve env c e rq d)) = 201"
  shows "(\<exists>new. collection e (snd (serve env c e rq d)) = collection e d @ [new] \<and>
                map_of new ''hospitalId'' = Some (VStr (hospitalId c))) \<and>
         (e = PostStaff \<and> ''hospitalId'' \<in> set (declared (userSchema env)) \<longrightarrow>
            (\<exists>u. users (snd (serve env c e rq d)) = users d @ [u] \<and>
                 map_of u ''hospitalId'' = Some (VStr (hospitalId c))))"
proof -
  have h: "serve env c e rq d = handler env c e rq d"
    using assms(3) by (auto simp: serve_def authorize_def split: option.splits if_splits)
  consider "e = PostPatient" | "e = PostAppointment" | "e = PostStaff" | "e = PostDoctor"
    using assms(1) by (auto simp: create_endpoints_def)
  then show ?thesis
  proof cases
    case 1
    with assms(3) h post_patient_created [of env c rq d] show ?thesis by auto
  next
    case 2
    with assms(3) h post_appointment_created [of env c rq d] show ?thesis by auto
  next
    case 3
    with assms(3) h post_staff_created [of env c rq d] show ?thesis by auto
  next
    case 4
    with assms(3) h post_doctor_created [of env c rq d] show ?thesis by auto
  qed
qed

theorem created_record_carries_request_tenant_witness:
  "map_of (rbody new_patient_rq) ''hospitalId'' = Some (VStr ''h2'') \<and>
   (\<exists>new. patients (snd (serve example_env owner_h1 PostPatient new_patient_rq example_db)) =
            patients example_db @ [new] \<and>
          map_of new ''hospitalId'' = Some (VStr ''h1''))"
proof -
  have 1: "PostPatient \<in> set create_endpoints" by (simp add: create_endpoints_def)
  have 2: "PostPatient = PostPatient \<longrightarrow> ''hospitalId'' \<in> set (declared (patientSchema example_env))"
    by code_simp
  have 3: "code (fst (serve example_env owner_h1 PostPatient new_patient_rq example_db)) = 201"
    by code_simp
  show ?thesis
    using created_record_carries_request_tenant [OF 1 2 3] by (simp add: owner_h1_def new_patient_rq_def)
qed

section \<open>Staff creation is two writes\<close>

lemma post_staff_partial:
  assumes "save env (userSchema env) (clock env 0)
             (new_model env (userSchema env) (objectId env 0) (clock env 0) (userAccountData c rq)) (users d) = Inr (u, us)"
    and "save env staffSchema (clock env 1)
             (new_model env staffSchema (objectId env 1) (clock env 1) (staffProfileData c rq u)) (staff d) = Inl err"
  shows "post_staff env c rq d = (server_error, d\<lparr>users := users d @ [u]\<rparr>)"
  using assms save_Inr [OF assms(1)] by (auto simp: post_staff_def Let_def)

text \<open>
  C7. \<open>POST /api/staff\<close> saves the user account, then the staff profile, with no
  transaction around the two. Whenever the first save succeeds and the second fails
  (validation, duplicate \<open>employeeId\<close>), the response is the 500 error, the user
  account stays in the store and no staff profile has been written.
\<close>

theorem staff_creation_not_atomic:
  assumes "role c = ''hospitalOwner''"
    and "save env (userSchema env) (clock env 0)
             (new_model env (userSchema env) (objectId env 0) (clock env 0) (userAccountData c rq)) (users d) = Inr (u, us)"
    and "save env staffSchema (clock env 1)
             (new_model env staffSchema (objectId env 1) (clock env 1) (staffProfileData c rq u)) (staff d) = Inl err"
  shows "serve env c PostStaff rq d = (server_error, d\<lparr>users := users d @ [u]\<rparr>) \<and>
         staff (snd (serve env c PostStaff rq d)) = staff d \<and>
         users (snd (serve env c PostStaff rq d)) \<noteq> users d"
  using assms(1) post_staff_partial [OF assms(2,3)]
  by (simp add: serve_def authorize_def)

theorem staff_creation_not_atomic_witness:
  "serve example_env owner_h1 PostStaff new_staff_rq example_db =
     (server_error, example_db\<lparr>users := [user1, new_user]\<rparr>) \<and>
   code server_error = 500 \<and> staff example_db = [staff1]"
proof -
  have 1: "role owner_h1 = ''hospitalOwner''" by (simp add: owner_h1_def)
  have 2: "save example_env (userSchema example_env) (clock example_env 0)
             (new_model example_env (userSchema example_env) (objectId example_env 0) (clock example_env 0)
                (userAccountData owner_h1 new_staff_rq)) (users example_db) = Inr (new_user, [user1, new_user])"
    by code_simp
  have 3: "save example_env staffSchema (clock example_env 1)
             (new_model example_env staffSchema (objectId example_env 1) (clock example_env 1)
                (staffProfileData owner_h1 new_staff_rq new_user)) (staff example_db) = Inl ValidationError"
    by code_simp
  have 4: "users example_db = [user1]" "staff example_db = [staff1]" by (simp_all add: example_db_def)
  show ?thesis
    using staff_creation_not_atomic [OF 1 2 3] 4 by simp
qed

section \<open>Facts about updated collections\<close>

lemma find_replace_first:
  "List.find flt xs = Some a \<Longrightarrow> flt a' \<Longrightarrow> List.find flt (replace_first flt a' xs) = Some a'"
  by (induction xs) (auto split: if_splits)

lemma length_replace_first [simp]: "length (replace_first flt a' xs) = length xs"
  by (induction xs) auto

lemma find_Some_holds: "List.find flt xs = Some a \<Longrightarrow> flt a \<and> a \<in> set xs"
  by (induction xs) (auto split: if_splits)

lemma findOneAndUpdate_Some:
  assumes "findOneAndUpdate env sch now rv flt upd coll = Inr (res, coll')"
    and "List.find flt coll = Some a"
  shows "\<exists>change a'. prepare_update env sch now rv upd = Inr change \<and> change a = Inr a' \<and>
           res = Some a' \<and> coll' = replace_first flt a' coll \<and> map_of a' ''_id'' = map_of a ''_id''"
  using assms by (auto simp: findOneAndUpdate_def split: sum.splits if_splits)

lemma findOneAndUpdate_None:
  assumes "findOneAndUpdate env sch now rv flt upd coll = Inr (res, coll')"
    and "List.find flt coll = None"
  shows "res = None \<and> coll' = coll"
  using assms by (auto simp: findOneAndUpdate_def split: sum.splits)

lemma map_of_merge:
  "map_of (AList.merge a u) k = (case map_of u k of None \<Rightarrow> map_of a k | Some v \<Rightarrow> Some v)"
  by (simp add: merge_conv' map_add_def)

lemma cast_update_first:
  assumes "cast_update env sch now upd = Some u"
    and "List.find (\<lambda>f. fname f = k) (all_paths sch) = Some f"
    and "map_of upd k = Some v" and "k \<noteq> ''createdAt''" and "k \<noteq> ''updatedAt''"
  shows "\<exists>v'. cast_value env True (ftype f) (fopts f) v = Some v' \<and> map_of u k = Some v'"
proof (cases "timestamps sch")
  case True
  with assms(1) obtain u0 where
    c: "cast_fields env True (all_paths sch) (AList.delete ''updatedAt'' (AList.delete ''createdAt'' upd)) = Some u0"
    and u: "u = u0 @ [(''updatedAt'', VNum now)]"
    by (auto simp: cast_update_def)
  have "map_of (AList.delete ''updatedAt'' (AList.delete ''createdAt'' upd)) k = Some v"
    using assms(3-5) by (simp add: delete_conv')
  from cast_fields_first [OF c assms(2) this] u show ?thesis
    by auto
next
  case False
  with assms(1) have "cast_fields env True (all_paths sch) upd = Some u"
    by (simp add: cast_update_def)
  from cast_fields_first [OF this assms(2,3)] show ?thesis .
qed


lemma status_written:
  assumes "findOneAndUpdate env sch now rv (by_id c rq) [(''status'', VStr s)] coll = Inr (Some a', coll')"
    and "prepare_update env sch now rv [(''status'', VStr s)] =
           Inr (\<lambda>d. Inr (AList.merge d [(''status'', VStr s), (''updatedAt'', VNum now)]))"
  shows "\<exists>a. List.find (by_id c rq) coll = Some a \<and>
             coll' = replace_first (by_id c rq) a' coll \<and>
             List.find (by_id c rq) coll' = Some a' \<and>
             map_of a' ''status'' = Some (VStr s) \<and>
             map_of a' ''updatedAt'' = Some (VNum now) \<and>
             (\<forall>k. k \<noteq> ''status'' \<and> k \<noteq> ''updatedAt'' \<longrightarrow> map_of a' k = map_of a k)"
proof -
  obtain a where a: "List.find (by_id c rq) coll = Some a"
    using findOneAndUpdate_None [OF assms(1)] by (cases "List.find (by_id c rq) coll") auto
  from findOneAndUpdate_Some [OF assms(1) a] assms(2)
  have a': "a' = AList.merge a [(''status'', VStr s), (''updatedAt'', VNum now)]"
    and c: "coll' = replace_first (by_id c rq) a' coll" by auto
  have f: "map_of a' k = (if k = ''status'' then Some (VStr s) else if k = ''updatedAt'' then Some (VNum now) else map_of a k)" for k
    unfolding a' map_of_merge by simp
  have "by_id c rq a" using find_Some_holds [OF a] by simp
  then have "by_id c rq a'" by (simp add: by_id_iff f)
  then have "List.find (by_id c rq) coll' = Some a'"
    unfolding c using a by (intro find_replace_first)
  with a c f show ?thesis by auto
qed

section \<open>Doctor profiles\<close>

lemma by_user_id_iff: "by_user_id c x \<longleftrightarrow> map_of x ''_id'' = Some (VStr (userId c))"
  by (simp add: by_user_id_def matches_def)

lemma trim_doctor: "trim ''doctor'' = ''doctor''"
  by code_simp

lemma setters_doctor: "setters env os ''doctor'' = ''doctor''"
  by (simp add: setters_def Let_def trim_doctor lowercase_def lower_def)

lemma role_rewritten:
  assumes "findOneAndUpdate env (userSchema env) now False (by_user_id c) [(''role'', VStr ''doctor'')] us = Inr (res, us')"
    and "List.find (by_user_id c) us = Some u"
  shows "\<exists>u'. List.find (by_user_id c) us' = Some u' \<and> map_of u' ''role'' = Some (VStr ''doctor'')"
proof -
  from findOneAndUpdate_Some [OF assms] obtain change u' where
    p: "prepare_update env (userSchema env) now False [(''role'', VStr ''doctor'')] = Inr change"
    and ch: "change u = Inr u'"
    and c: "us' = replace_first (by_user_id c) u' us"
    and i: "map_of u' ''_id'' = map_of u ''_id''"
    by blast
  have pl: "plain_update [(''role'', VStr ''doctor'')]"
    by (simp add: plain_update_def plain_key_def)
  from p pl obtain uu where cu: "cast_update env (userSchema env) now [(''role'', VStr ''doctor'')] = Some uu"
    and cg: "change = (\<lambda>d. Inr (AList.merge d uu))"
    by (auto simp: prepare_update_def split: option.splits)
  from cast_update_first [OF cu find_hospitalId(7)]
  have "map_of uu ''role'' = Some (VStr ''doctor'')"
    by (auto simp: cast_string_def string_of_def setters_doctor)
  with ch cg have r: "map_of u' ''role'' = Some (VStr ''doctor'')"
    by (auto simp: map_of_merge)
  have "by_user_id c u" using find_Some_holds [OF assms(2)] by simp
  with i have "by_user_id c u'"
    by (simp add: by_user_id_iff)
  then have "List.find (by_user_id c) us' = Some u'"
    unfolding c using assms(2) by (intro find_replace_first)
  with r show ?thesis by (intro exI [of _ u'] conjI)
qed

text \<open>
  C10. Whenever \<open>POST /api/doctors\<close> answers 201, the doctor record appended to the
  collection has the requester's user id as \<open>userId\<close>, whatever the body supplied, and
  the requester's user record, when the users collection holds it (the User schema
  declaring \<open>role\<close>), now has the role \<open>doctor\<close>, whatever the role was before.
\<close>

theorem doctor_profile_takes_requester:
  assumes "code (fst (serve env c PostDoctor rq d)) = 201"
  shows "(\<exists>x. doctors (snd (serve env c PostDoctor rq d)) = doctors d @ [x] \<and>
              map_of x ''userId'' = Some (VStr (userId c))) \<and>
         (\<forall>u. ''role'' \<in> set (declared (userSchema env)) \<and> List.find (by_user_id c) (users d) = Some u \<longrightarrow>
              (\<exists>u'. List.find (by_user_id c) (users (snd (serve env c PostDoctor rq d))) = Some u' \<and>
                    map_of u' ''role'' = Some (VStr ''doctor'')))"
proof -
  have h: "serve env c PostDoctor rq d = post_doctor env c rq d"
    using assms by (auto simp: serve_def authorize_def split: if_splits)
  with assms have "code (fst (post_doctor env c rq d)) = 201" by simp
  from post_doctor_created [OF this] obtain x res us' where
    f: "findOneAndUpdate env (userSchema env) (clock env 1) False (by_user_id c)
            [(''role'', VStr ''doctor'')] (users d) = Inr (res, us')"
    and r: "snd (post_doctor env c rq d) = d\<lparr>doctors := doctors d @ [x], users := us'\<rparr>"
    and x: "map_of x ''userId'' = Some (VStr (userId c))"
    by auto
  show ?thesis
    using h r x role_rewritten [OF f] by auto
qed

theorem doctor_profile_takes_requester_witness:
  "role owner_h1 = ''hospitalOwner'' \<and> map_of user1 ''role'' = Some (VStr ''hospitalOwner'') \<and>
   map_of (rbody new_doctor_rq) ''userId'' = Some (VStr ''65a0000000000000000000b9'') \<and>
   (\<exists>x. doctors (snd (serve example_env owner_h1 PostDoctor new_doctor_rq example_db)) = doctors example_db @ [x] \<and>
        map_of x ''userId'' = Some (VStr ''65a0000000000000000000b1'')) \<and>
   (\<exists>u'. List.find (by_user_id owner_h1) (users (snd (serve example_env owner_h1 PostDoctor new_doctor_rq example_db))) = Some u' \<and>
         map_of u' ''role'' = Some (VStr ''doctor''))"
proof -
  have 1: "code (fst (serve example_env owner_h1 PostDoctor new_doctor_rq example_db)) = 201"
    by code_simp
  have 2: "''role'' \<in> set (declared (userSchema example_env))" by code_simp
  have 3: "List.find (by_user_id owner_h1) (users example_db) = Some user1" by code_simp
  have 4: "userId owner_h1 = ''65a0000000000000000000b1''" "role owner_h1 = ''hospitalOwner''"
    by (simp_all add: owner_h1_def)
  have 5: "map_of user1 ''role'' = Some (VStr ''hospitalOwner'')" by (simp add: user1_def)
  have 6: "map_of (rbody new_doctor_rq) ''userId'' = Some (VStr ''65a0000000000000000000b9'')"
    by (simp add: new_doctor_rq_def)
  show ?thesis
    using doctor_profile_takes_requester [OF 1] 2 3 4 5 6 by auto
qed

section \<open>Deleting\<close>

lemma remove_first_set:
  "distinct xs \<Longrightarrow> List.find flt xs = Some a \<Longrightarrow> set (remove_first flt xs) = set xs - {a}"
  by (induction xs) (auto split: if_splits dest: find_Some_holds)

lemma length_remove_first:
  "List.find flt xs = Some a \<Longrightarrow> Suc (length (remove_first flt xs)) = length xs"
  by (induction xs) (auto split: if_splits)

lemma removed_id_gone:
  assumes "distinct (map doc_id xs)" and "List.find (by_id c rq) xs = Some a"
  shows "\<forall>x \<in> set (remove_first (by_id c rq) xs). map_of x ''_id'' \<noteq> Some (VStr (rid rq))"
proof
  fix x assume x: "x \<in> set (remove_first (by_id c rq) xs)"
  have d: "distinct xs" using assms(1) by (simp add: distinct_map)
  have a: "a \<in> set xs" "map_of a ''_id'' = Some (VStr (rid rq))"
    using find_Some_holds [OF assms(2)] by (simp_all add: by_id_iff)
  from x have xx: "x \<in> set xs" "x \<noteq> a"
    using remove_first_set [OF d assms(2)] by auto
  show "map_of x ''_id'' \<noteq> Some (VStr (rid rq))"
  proof
    assume "map_of x ''_id'' = Some (VStr (rid rq))"
    then have "doc_id x = doc_id a" using a(2) by (simp add: doc_id_def)
    moreover have "inj_on doc_id (set xs)" using assms(1) by (simp add: distinct_map)
    ultimately show False using xx a(1) by (auto dest: inj_onD)
  qed
qed

text \<open>
  C9, as the code has it. A successful \<open>DELETE /api/appointments/:id\<close> or
  \<open>DELETE /api/staff/:id\<close> keeps the record in its collection, at its place, still
  found by the same query: \<open>status\<close> is set (to \<open>Cancelled\<close>, to \<open>inactive\<close>), the
  schema's \<open>updatedAt\<close> timestamp is set to the time of the request, and every other
  field is as before. A successful \<open>DELETE /api/patients/:id\<close> removes the record: the
  collection is one shorter and, \<open>_id\<close>s being unique, holds no record of that \<open>_id\<close>.
\<close>

theorem delete_is_soft_except_for_patients:
  assumes "code (fst (serve env c e rq d)) = 200"
  shows "(e = DeleteAppointment \<or> e = DeleteStaff \<longrightarrow>
           (\<exists>a a'. List.find (by_id c rq) (collection e d) = Some a \<and>
                   collection e (snd (serve env c e rq d)) = replace_first (by_id c rq) a' (collection e d) \<and>
                   List.find (by_id c rq) (collection e (snd (serve env c e rq d))) = Some a' \<and>
                   map_of a' ''status'' = Some (VStr (if e = DeleteAppointment then ''Cancelled'' else ''inactive'')) \<and>
                   map_of a' ''updatedAt'' = Some (VNum (clock env 0)) \<and>
                   (\<forall>k. k \<noteq> ''status'' \<and> k \<noteq> ''updatedAt'' \<longrightarrow> map_of a' k = map_of a k))) \<and>
         (e = DeletePatient \<longrightarrow>
           (\<exists>p. List.find (by_id c rq) (patients d) = Some p \<and>
                patients (snd (serve env c e rq d)) = remove_first (by_id c rq) (patients d) \<and>
                Suc (length (patients (snd (serve env c e rq d)))) = length (patients d) \<and>
                (distinct (map doc_id (patients d)) \<longrightarrow>
                   (\<forall>x \<in> set (patients (snd (serve env c e rq d))). map_of x ''_id'' \<noteq> Some (VStr (rid rq))))))"
proof -
  have h: "e = DeleteAppointment \<or> e = DeleteStaff \<or> e = DeletePatient \<Longrightarrow> serve env c e rq d = handler env c e rq d"
    using assms by (auto simp: serve_def authorize_def split: if_splits)
  have A: ?thesis if e: "e = DeleteAppointment"
  proof -
    obtain a' as where f: "findOneAndUpdate env appointmentSchema (clock env 0) False (by_id c rq)
          [(''status'', VStr ''Cancelled'')] (appointments d) = Inr (Some a', as)"
      and r: "snd (serve env c e rq d) = d\<lparr>appointments := as\<rparr>"
      using assms h e
      by (auto simp: delete_appointment_def split: if_splits sum.splits option.splits)
    from status_written [OF f] e r show ?thesis by (auto simp: prepare_status)
  qed
  have B: ?thesis if e: "e = DeleteStaff"
  proof -
    obtain a' as where f: "findOneAndUpdate env staffSchema (clock env 0) False (by_id c rq)
          [(''status'', VStr ''inactive'')] (staff d) = Inr (Some a', as)"
      and r: "snd (serve env c e rq d) = d\<lparr>staff := as\<rparr>"
      using assms h e
      by (auto simp: delete_staff_def split: if_splits sum.splits option.splits)
    from status_written [OF f] e r show ?thesis by (auto simp: prepare_status)
  qed
  have C: ?thesis if e: "e = DeletePatient"
  proof -
    obtain p where f: "List.find (by_id c rq) (patients d) = Some p"
      and r: "snd (serve env c e rq d) = d\<lparr>patients := remove_first (by_id c rq) (patients d)\<rparr>"
      using assms h e
      by (auto simp: delete_patient_def findOneAndDelete_def split: if_splits option.splits)
    from f r e length_remove_first [OF f] removed_id_gone [OF _ f] show ?thesis by auto
  qed
  from A B C show ?thesis by blast
qed

theorem delete_is_soft_except_for_patients_witness:
  "field_of (findOne (by_id owner_h1 (by_path ''65a0000000000000000000a2''))
      (appointments (snd (serve example_env owner_h1 DeleteAppointment (by_path ''65a0000000000000000000a2'') example_db))))
      ''status'' = Some (VStr ''Cancelled'') \<and>
   length (appointments (snd (serve example_env owner_h1 DeleteAppointment (by_path ''65a0000000000000000000a2'') example_db))) = 3"
proof -
  let ?d' = "snd (serve example_env owner_h1 DeleteAppointment (by_path ''65a0000000000000000000a2'') example_db)"
  let ?q = "by_id owner_h1 (by_path ''65a0000000000000000000a2'')"
  have 1: "code (fst (serve example_env owner_h1 DeleteAppointment (by_path ''65a0000000000000000000a2'') example_db)) = 200"
    by code_simp
  have 2: "length (appointments example_db) = 3" by (simp add: example_db_def)
  from delete_is_soft_except_for_patients [OF 1] obtain a :: doc and a' where
    r: "appointments ?d' = replace_first ?q a' (appointments example_db)"
    and f: "List.find ?q (appointments ?d') = Some a'"
    and s: "map_of a' ''status'' = Some (VStr ''Cancelled'')"
    by fastforce
  from f s have "field_of (findOne ?q (appointments ?d')) ''status'' = Some (VStr ''Cancelled'')"
    by (simp add: findOne_def field_of_def)
  moreover from r 2 have "length (appointments ?d') = 3" by simp
  ultimately show ?thesis by (rule conjI)
qed

text \<open>
  C9, as stated, fails on "only the status field": both schemas have \<open>timestamps: true\<close>,
  so the update also rewrites \<open>updatedAt\<close>. Cancelling \<open>appt2\<close> changes its \<open>updatedAt\<close>.
\<close>

theorem delete_rewrites_updatedAt_counterexample:
  "code (fst (serve example_env owner_h1 DeleteAppointment (by_path ''65a0000000000000000000a2'') example_db)) = 200 \<and>
   findOne (by_id owner_h1 (by_path ''65a0000000000000000000a2'')) (appointments example_db) = Some appt2 \<and>
   map_of appt2 ''updatedAt'' = Some (VNum 1699000000001) \<and>
   field_of (findOne (by_id owner_h1 (by_path ''65a0000000000000000000a2''))
      (appointments (snd (serve example_env owner_h1 DeleteAppointment (by_path ''65a0000000000000000000a2'') example_db))))
      ''updatedAt'' = Some (VNum 1700000000000)"
  by (intro conjI; code_simp)

section \<open>The status of an appointment\<close>






section \<open>Pagination\<close>

lemma ceil_div_bounds:
  assumes "0 < (L::int)"
  shows "(ceil_div N L - 1) * L < N \<and> N \<le> ceil_div N L * L"
proof -
  define q where "q = (- N) div L"
  define r where "r = (- N) mod L"
  have e: "L * q + r = - N" by (simp add: q_def r_def)
  have m: "0 \<le> r" "r < L" using assms by (simp_all add: r_def)
  have c: "ceil_div N L * L = - (L * q)" "(ceil_div N L - 1) * L = - (L * q) - L"
    by (simp_all add: ceil_div_def q_def algebra_simps)
  show ?thesis unfolding c using e m by linarith
qed

lemma to_double_exact: "\<bar>i\<bar> < 2 ^ 53 \<Longrightarrow> to_double i = Num i"
  by (simp add: to_double_def)

lemma last_page_size:
  assumes "0 < (L::int)" and "L < 2 ^ 63" and "0 < N" and "int N < 2 ^ 53" and "length found = N"
  shows "skip_limit (times (minus_one (Num (ceil_div (int N) L))) (Num L)) (Num L) found =
           Inr (drop (nat ((ceil_div (int N) L - 1) * L)) found) \<and>
         int (length (drop (nat ((ceil_div (int N) L - 1) * L)) found)) =
           int N - (ceil_div (int N) L - 1) * L"
proof -
  let ?P = "ceil_div (int N) L"
  have b: "(?P - 1) * L < int N" "int N \<le> ?P * L" using ceil_div_bounds [OF assms(1)] by simp_all
  have p: "1 \<le> ?P"
  proof (rule ccontr)
    assume "\<not> 1 \<le> ?P"
    then have "?P \<le> 0" by simp
    then have "?P * L \<le> 0" using assms(1) by (simp add: mult_le_0_iff)
    with b(2) assms(3) show False by simp
  qed
  then have s: "0 \<le> (?P - 1) * L" using assms(1) by simp
  have "(?P - 1) * 1 \<le> (?P - 1) * L"
    using p assms(1) by (intro mult_left_mono) simp_all
  with b(1) have q: "?P - 1 < int N" by simp
  have t: "int N - (?P - 1) * L \<le> L" using b(2) by (simp add: algebra_simps)
  have m1: "minus_one (Num ?P) = Num (?P - 1)"
    using p q assms(4) by (simp add: minus_one_def to_double_exact)
  have m2: "times (Num (?P - 1)) (Num L) = Num ((?P - 1) * L)"
    using s b(1) assms(4) by (simp add: times_def to_double_exact)
  have big: "(2::int) ^ 53 \<le> 2 ^ 63" by simp
  have len: "length (drop (nat ((?P - 1) * L)) found) = N - nat ((?P - 1) * L)"
    using assms(5) by simp
  have le: "N - nat ((?P - 1) * L) \<le> nat L"
    using t s b(1) assms(1) by linarith
  have 1: "skip_limit (times (minus_one (Num ?P)) (Num L)) (Num L) found = Inr (drop (nat ((?P - 1) * L)) found)"
    unfolding m1 m2 using s b(1) assms(1,2,4) big len le
    by (simp add: skip_limit_def)
  have "int (N - nat ((?P - 1) * L)) = int N - (?P - 1) * L" using s b(1) by simp
  with 1 len show ?thesis by simp
qed

lemma list_shape_simps:
  "list_shape GetPatients d = id"
  "list_shape GetAppointments d = populate_appointment d"
  "list_shape GetStaff d = populate_staff d"
  by (rule ext, simp add: list_shape_def)+

lemma serve_list:
  assumes "e \<in> set list_endpoints" and "admitted c e" and "list_query env c e rq = Inr q"
  shows "serve env c e rq d =
           (case skip_limit (times (minus_one (query_int rq ''page'' 1)) (query_int rq ''limit'' 10))
                   (query_int rq ''limit'' 10) (list_order e (filter q (collection e d))) of
              Inl err \<Rightarrow> (server_error, d)
            | Inr ps \<Rightarrow> (ok_page (map (list_shape e d) ps) (query_int rq ''page'' 1) (query_int rq ''limit'' 10)
                          (length (filter q (collection e d))), d))"
proof -
  consider "e = GetPatients" | "e = GetAppointments" | "e = GetStaff"
    using assms(1) by (auto simp: list_endpoints_def)
  then show ?thesis
  proof cases
    case 1
    then show ?thesis
      using assms(3)
      by (simp add: serve_def get_patients_def list_query_def list_order_def list_shape_simps Let_def
          split: sum.splits)
  next
    case 2
    then show ?thesis
      using assms(3)
      by (simp add: serve_def get_appointments_def list_query_def list_order_def list_shape_simps Let_def
          split: sum.splits)
  next
    case 3
    then show ?thesis
      using assms(2,3)
      by (simp add: serve_def authorize_def admitted_def get_staff_def list_query_def list_order_def
          list_shape_simps Let_def split: sum.splits)
  qed
qed

lemma parseInt_one: "parseInt ''1'' = Num 1"
  by code_simp

lemma query_int_page_falsy:
  assumes "parseInt s = NaN \<or> parseInt s = Num 0"
  shows "query_int (rq\<lparr>rquery := (''page'', s) # qs\<rparr>) ''page'' 1 = Num 1"
  using assms by (auto simp: query_int_def)

lemma query_int_page_one: "query_int (rq\<lparr>rquery := (''page'', ''1'') # qs\<rparr>) ''page'' 1 = Num 1"
  by (simp add: query_int_def parseInt_one)

lemma query_int_other:
  "n \<noteq> ''page'' \<Longrightarrow> query_int (rq\<lparr>rquery := (''page'', s) # qs\<rparr>) n k = query_int (rq\<lparr>rquery := qs\<rparr>) n k"
  by (simp add: query_int_def)

lemma query_str_other:
  "n \<noteq> ''page'' \<Longrightarrow> query_str (rq\<lparr>rquery := (''page'', s) # qs\<rparr>) n = query_str (rq\<lparr>rquery := qs\<rparr>) n"
  by (simp add: query_str_def)

lemma list_query_other:
  "patients_query env c (rq\<lparr>rquery := (''page'', s) # qs\<rparr>) = patients_query env c (rq\<lparr>rquery := qs\<rparr>)"
  "appointments_query env c (rq\<lparr>rquery := (''page'', s) # qs\<rparr>) = appointments_query env c (rq\<lparr>rquery := qs\<rparr>)"
  "staff_query env c (rq\<lparr>rquery := (''page'', s) # qs\<rparr>) = staff_query env c (rq\<lparr>rquery := qs\<rparr>)"
  by (simp_all add: patients_query_def appointments_query_def staff_query_def query_str_other)

lemma page_zero_is_page_one:
  assumes "e \<in> set list_endpoints" and "parseInt s = NaN \<or> parseInt s = Num 0"
  shows "serve env c e (rq\<lparr>rquery := (''page'', s) # qs\<rparr>) d =
         serve env c e (rq\<lparr>rquery := (''page'', ''1'') # qs\<rparr>) d"
proof -
  have "handler env c e (rq\<lparr>rquery := (''page'', s) # qs\<rparr>) d =
        handler env c e (rq\<lparr>rquery := (''page'', ''1'') # qs\<rparr>) d"
    using assms(1) query_int_page_falsy [OF assms(2)]
    by (auto simp: list_endpoints_def get_patients_def get_appointments_def get_staff_def
        list_query_other query_int_other query_int_page_one)
  then show ?thesis by (simp add: serve_def authorize_def split: option.splits)
qed

text \<open>
  C4, as the code has it. Take a list route (\<open>GET /api/patients\<close>, \<open>/api/appointments\<close>,
  \<open>/api/staff\<close>) whose query matches \<open>N > 0\<close> records, \<open>N\<close> below \<open>2^53\<close>, with a page
  size \<open>L > 0\<close> that the store accepts as a limit (\<open>L\<close> below \<open>2^63\<close>). The page
  \<open>\<lceil>N/L\<rceil>\<close> is answered 200 with the matching records that come after the first
  \<open>(\<lceil>N/L\<rceil> - 1) L\<close> in the order of the route, each in the form the route returns;
  they are \<open>N - (\<lceil>N/L\<rceil> - 1) L\<close> records. The pagination block
  \<open>{page, limit, total, pages}\<close> reports \<open>page = pages = \<lceil>N/L\<rceil>\<close>, and the store is
  unchanged. A \<open>page\<close> parameter that \<open>parseInt\<close> reads as \<open>0\<close> or as \<open>NaN\<close> is served
  exactly as page 1.
\<close>

theorem last_page_returns_remainder:
  assumes "e \<in> set list_endpoints" and "admitted c e"
  shows "(\<forall>q N L. list_query env c e rq = Inr q \<and>
            N = length (filter q (collection e d)) \<and> 0 < N \<and> int N < 2 ^ 53 \<and>
            query_int rq ''limit'' 10 = Num L \<and> 0 < L \<and> L < 2 ^ 63 \<and>
            query_int rq ''page'' 1 = Num (ceil_div (int N) L) \<longrightarrow>
            code (fst (serve env c e rq d)) = 200 \<and> snd (serve env c e rq d) = d \<and>
            response_data (fst (serve env c e rq d)) =
              map (\<lambda>x. VObj (list_shape e d x))
                (drop (nat ((ceil_div (int N) L - 1) * L)) (list_order e (filter q (collection e d)))) \<and>
            int (length (response_data (fst (serve env c e rq d)))) = int N - (ceil_div (int N) L - 1) * L \<and>
            response_pagination (fst (serve env c e rq d)) =
              [(''page'', VNum (ceil_div (int N) L)), (''limit'', VNum L), (''total'', VNum (int N)),
               (''pages'', VNum (ceil_div (int N) L))]) \<and>
         (\<forall>s qs. parseInt s = NaN \<or> parseInt s = Num 0 \<longrightarrow>
            serve env c e (rq\<lparr>rquery := (''page'', s) # qs\<rparr>) d =
            serve env c e (rq\<lparr>rquery := (''page'', ''1'') # qs\<rparr>) d)"
proof -
  have B: "serve env c e (rq\<lparr>rquery := (''page'', s) # qs\<rparr>) d =
           serve env c e (rq\<lparr>rquery := (''page'', ''1'') # qs\<rparr>) d"
    if "parseInt s = NaN \<or> parseInt s = Num 0" for s qs
    using assms(1) that by (rule page_zero_is_page_one)
  have A: "code (fst (serve env c e rq d)) = 200 \<and> snd (serve env c e rq d) = d \<and>
        response_data (fst (serve env c e rq d)) =
          map (\<lambda>x. VObj (list_shape e d x))
            (drop (nat ((ceil_div (int N) L - 1) * L)) (list_order e (filter q (collection e d)))) \<and>
        int (length (response_data (fst (serve env c e rq d)))) = int N - (ceil_div (int N) L - 1) * L \<and>
        response_pagination (fst (serve env c e rq d)) =
          [(''page'', VNum (ceil_div (int N) L)), (''limit'', VNum L), (''total'', VNum (int N)),
           (''pages'', VNum (ceil_div (int N) L))]"
    if a: "list_query env c e rq = Inr q \<and>
            N = length (filter q (collection e d)) \<and> 0 < N \<and> int N < 2 ^ 53 \<and>
            query_int rq ''limit'' 10 = Num L \<and> 0 < L \<and> L < 2 ^ 63 \<and>
            query_int rq ''page'' 1 = Num (ceil_div (int N) L)" for q N L
  proof -
    let ?found = "list_order e (filter q (collection e d))"
    let ?skip = "nat ((ceil_div (int N) L - 1) * L)"
    from a have q: "list_query env c e rq = Inr q" by simp
    have pg: "query_int rq ''page'' 1 = Num (ceil_div (int N) L)" and lm: "query_int rq ''limit'' 10 = Num L"
      and nn: "length (filter q (collection e d)) = N"
      using a by auto
    have len: "length ?found = N"
      using assms(1) nn by (auto simp: list_order_def list_endpoints_def)
    note sv = serve_list [OF assms q, of d, unfolded pg lm nn]
    from a have "0 < L" "L < 2 ^ 63" "0 < N" "int N < 2 ^ 53" by blast+
    from last_page_size [OF this len] sv
    have r: "serve env c e rq d =
          (ok_page (map (list_shape e d) (drop ?skip ?found)) (Num (ceil_div (int N) L)) (Num L) N, d)"
      and n: "int (length (drop ?skip ?found)) = int N - (ceil_div (int N) L - 1) * L"
      by simp_all
    from \<open>0 < L\<close> have l0: "L \<noteq> 0" by simp
    show ?thesis
      unfolding r using n l0
      by (simp add: ok_page_def response_data_def response_pagination_def pagination_def pages_def
          json_number_def)
  qed
  show ?thesis
    by (rule conjI; intro allI impI; (rule A | rule B); assumption)
qed

theorem last_page_returns_remainder_witness:
  "response_data (fst (serve example_env owner_h1 GetAppointments (page_rq ''2'' ''2'') example_db)) =
     [VObj (list_shape GetAppointments example_db appt3)] \<and>
   response_pagination (fst (serve example_env owner_h1 GetAppointments (page_rq ''2'' ''2'') example_db)) =
     [(''page'', VNum 2), (''limit'', VNum 2), (''total'', VNum 3), (''pages'', VNum 2)] \<and>
   serve example_env owner_h1 GetAppointments ((page_rq ''2'' ''2'')\<lparr>rquery := (''page'', ''0'') # [(''limit'', ''2'')]\<rparr>) example_db =
   serve example_env owner_h1 GetAppointments ((page_rq ''2'' ''2'')\<lparr>rquery := (''page'', ''1'') # [(''limit'', ''2'')]\<rparr>) example_db"
proof -
  define q where "q = (\<lambda>d::doc. matches [(''hospitalId'', VStr ''h1'')] d \<and> True)"
  have 1: "GetAppointments \<in> set list_endpoints" by (simp add: list_endpoints_def)
  have 2: "admitted owner_h1 GetAppointments" by (simp add: admitted_def)
  have 3: "list_query example_env owner_h1 GetAppointments (page_rq ''2'' ''2'') = Inr q"
    by (simp add: list_query_def appointments_query_def query_str_def page_rq_def owner_h1_def q_def)
  have f: "filter q (collection GetAppointments example_db) = [appt1, appt2, appt3]"
    by (simp add: q_def example_db_def appt1_def appt2_def appt3_def matches_def)
  have 4: "3 = length (filter q (collection GetAppointments example_db))"
    unfolding f by simp
  have 5: "query_int (page_rq ''2'' ''2'') ''limit'' 10 = Num 2" by code_simp
  have 6: "query_int (page_rq ''2'' ''2'') ''page'' 1 = Num (ceil_div (int 3) 2)" by code_simp
  have 7: "parseInt ''0'' = NaN \<or> parseInt ''0'' = Num 0" by code_simp
  have o: "list_order GetAppointments [appt1, appt2, appt3] = [appt1, appt2, appt3]" by code_simp
  have P: "list_query example_env owner_h1 GetAppointments (page_rq ''2'' ''2'') = Inr q \<and>
           3 = length (filter q (collection GetAppointments example_db)) \<and> 0 < (3::nat) \<and> int 3 < 2 ^ 53 \<and>
           query_int (page_rq ''2'' ''2'') ''limit'' 10 = Num 2 \<and> 0 < (2::int) \<and> (2::int) < 2 ^ 63 \<and>
           query_int (page_rq ''2'' ''2'') ''page'' 1 = Num (ceil_div (int 3) 2)"
    by (intro conjI 3 4 5 6) simp_all
  note T = last_page_returns_remainder [OF 1 2, of example_env "page_rq ''2'' ''2''" example_db]
  have c: "ceil_div (int 3) 2 = 2" by (simp add: ceil_div_def)
  from T [THEN conjunct1, rule_format, OF P] T [THEN conjunct2, rule_format, OF 7, of "[(''limit'', ''2'')]"]
  show ?thesis unfolding c f o by simp
qed

text \<open>
  C4, as stated, fails in two places. The response carries no \<open>hasNext\<close> field, on
  the last page or elsewhere. And a negative page is not page 1: \<open>parseInt('-1')\<close> is
  \<open>-1\<close>, which is truthy, the skip becomes negative, the store refuses it and the
  handler answers 500.
\<close>

theorem negative_page_and_hasNext_counterexample:
  "code (fst (serve example_env owner_h1 GetAppointments (page_rq ''1'' ''2'') example_db)) = 200 \<and>
   parseInt ''-1'' = Num (- 1) \<and>
   code (fst (serve example_env owner_h1 GetAppointments (page_rq ''-1'' ''2'') example_db)) = 500 \<and>
   map_of (response_pagination (fst (serve example_env owner_h1 GetAppointments (page_rq ''2'' ''2'') example_db)))
     ''hasNext'' = None \<and>
   map_of (json (fst (serve example_env owner_h1 GetAppointments (page_rq ''2'' ''2'') example_db))) ''hasNext'' = None"
  by (intro conjI; code_simp)

section \<open>Identifiers stay unique\<close>

text \<open>Every request leaves the store with unique \<open>_id\<close>s in each collection.\<close>

lemma doc_id_stamp_new: "doc_id (stamp_new sch now x) = doc_id x"
  by (simp add: doc_id_def map_of_stamp_new)

lemma save_distinct:
  assumes "save env sch now x coll = Inr (p, ps)" and "distinct (map doc_id coll)"
  shows "distinct (map doc_id ps)"
proof -
  from save_Inr [OF assms(1)] obtain x1 i where i: "map_of x1 ''_id'' = Some (VStr i)"
    and p: "p = stamp_new sch now x1" "ps = coll @ [p]"
    and n: "\<not> duplicate_key (''_id'' # unique_paths sch) p coll"
    by blast
  have pi: "map_of p ''_id'' = Some (VStr i)" using i p(1) by (simp add: map_of_stamp_new)
  from n have "\<forall>x \<in> set coll. map_of x ''_id'' \<noteq> map_of p ''_id''"
    by (auto simp: duplicate_key_def list_ex_iff)
  then have "doc_id p \<notin> doc_id ` set coll"
    using pi by (auto simp: doc_id_def split: option.splits)
  with assms(2) p(2) show ?thesis by simp
qed

lemma map_replace_first:
  "List.find flt xs = Some a \<Longrightarrow> f a' = f a \<Longrightarrow> map f (replace_first flt a' xs) = map f xs"
  by (induction xs) (auto split: if_splits)

lemma update_distinct:
  assumes "findOneAndUpdate env sch now rv flt upd coll = Inr (res, coll')" and "distinct (map doc_id coll)"
  shows "distinct (map doc_id coll')"
proof (cases "List.find flt coll")
  case None
  with findOneAndUpdate_None [OF assms(1)] assms(2) show ?thesis by simp
next
  case (Some a)
  from findOneAndUpdate_Some [OF assms(1) Some] obtain a' where
    c: "coll' = replace_first flt a' coll" and i: "map_of a' ''_id'' = map_of a ''_id''"
    by blast
  from i have "doc_id a' = doc_id a"
    by (simp add: doc_id_def)
  with Some assms(2) show ?thesis unfolding c by (simp add: map_replace_first)
qed

lemma remove_first_distinct:
  "distinct (map f xs) \<Longrightarrow> distinct (map f (remove_first flt xs))"
proof (induction xs)
  case Nil
  then show ?case by simp
next
  case (Cons x xs)
  have "set (remove_first flt xs) \<subseteq> set xs" for xs :: "doc list"
    by (induction xs) auto
  with Cons show ?case by auto
qed

lemma serve_preserves_unique_ids:
  assumes "unique_ids d"
  shows "unique_ids (snd (serve env c e rq d))"
proof -
  have "unique_ids (snd (handler env c e rq d))"
    using assms
    by (cases e)
      (auto simp: unique_ids_def get_patients_def get_patient_def post_patient_def put_patient_def
        delete_patient_def get_recent_patients_def get_appointments_def post_appointment_def
        put_appointment_def delete_appointment_def get_upcoming_appointments_def get_doctor_appointments_def
        get_staff_def post_staff_def put_staff_def delete_staff_def get_staff_departments_def
        get_doctors_def get_doctor_def post_doctor_def put_doctor_def get_available_doctors_def
        coming_soon_def findOneAndDelete_def Let_def
        split: sum.splits option.splits if_splits prod.splits
        dest: save_distinct update_distinct intro: remove_first_distinct)
  with assms show ?thesis
    by (simp add: serve_def authorize_def split: option.splits)
qed


end
